theory Spec2Isabelle
  imports Complex_Main
begin

section \<open>Values the module works with\<close>

text \<open>
  The module under verification is \<^verbatim>\<open>views/system_info.py\<close> (Python 2). A colour is
  an RGB triple. A sample is what a probe returns: the text to show and its colour.
\<close>

type_synonym color = "real \<times> real \<times> real"
type_synonym sample = "string \<times> color"

text \<open>
  Modelled from the spec: the colour constants that \<^verbatim>\<open>from lib.display import *\<close> brings
  in (the file is not under src/). The spec names them only (red, green, yellow, a neutral
  blue, gray); they are given the RGB triples of those names. The claims below depend on
  the triples being pairwise different, and the gradient claim on the channels of green
  and red.
\<close>

definition BLACK :: color where "BLACK = (0, 0, 0)"
definition GRAY :: color where "GRAY = (128, 128, 128)"
definition RED :: color where "RED = (255, 0, 0)"
definition GREEN :: color where "GREEN = (0, 255, 0)"
definition BLUE :: color where "BLUE = (0, 0, 255)"
definition YELLOW :: color where "YELLOW = (255, 255, 0)"

text \<open>
  What a Python call can raise. \<^verbatim>\<open>except Exception\<close> catches the first kind only;
  a bare \<^verbatim>\<open>except:\<close> catches both. The second kind stands for \<^verbatim>\<open>KeyboardInterrupt\<close>,
  \<^verbatim>\<open>SystemExit\<close>, \<^verbatim>\<open>GeneratorExit\<close> and instances of old-style classes.
\<close>

datatype py_exc = StdError string | BaseOnly string

fun is_Exception :: "py_exc \<Rightarrow> bool" where
  "is_Exception (StdError _) = True"
| "is_Exception (BaseOnly _) = False"

text \<open>
  What the sensor hands back for a reading: \<^verbatim>\<open>None\<close>, a number, or a text such as an
  offline marker (the code tests \<^verbatim>\<open>isinstance(x, basestring)\<close>). The docstrings of
  the colour functions declare the numbers to be integers.
\<close>

datatype pyval = PNone | PInt int | PStr string

fun is_basestring :: "pyval \<Rightarrow> bool" where
  "is_basestring (PStr _) = True"
| "is_basestring _ = False"

text \<open>
  CPython 2 orders values of different types: \<^verbatim>\<open>None\<close> is below every number and
  every number is below every string.
\<close>

fun py_gt :: "pyval \<Rightarrow> int \<Rightarrow> bool" where
  "py_gt PNone k = False"
| "py_gt (PInt n) k = (n > k)"
| "py_gt (PStr s) k = True"

fun py_ge :: "pyval \<Rightarrow> int \<Rightarrow> bool" where
  "py_ge PNone k = False"
| "py_ge (PInt n) k = (n \<ge> k)"
| "py_ge (PStr s) k = True"

text \<open>
  A Python float: a finite one is taken as the real number it stands for; the builtin
  \<^verbatim>\<open>float\<close> also parses infinities and \<^verbatim>\<open>nan\<close>.
\<close>

datatype pyfloat = Finite real | PosInf | NegInf | NaN

subsection \<open>Text of an integer\<close>

fun str_nat :: "nat \<Rightarrow> string" where
  "str_nat n =
     (if n < 10 then [''0123456789'' ! n]
      else str_nat (n div 10) @ [''0123456789'' ! (n mod 10)])"

declare str_nat.simps [simp del]

definition str_int :: "int \<Rightarrow> string" where
  "str_int i = (if i < 0 then CHR ''-'' # str_nat (nat (- i)) else str_nat (nat i))"

text \<open>\<^verbatim>\<open>'{}'.format(v)\<close> on a reading.\<close>

fun py_str :: "pyval \<Rightarrow> string" where
  "py_str PNone = ''None''"
| "py_str (PInt n) = str_int n"
| "py_str (PStr s) = s"

text \<open>\<^verbatim>\<open>int(v)\<close> on a numeric reading.\<close>

fun py_int :: "pyval \<Rightarrow> int" where
  "py_int (PInt n) = n"
| "py_int _ = 0"

subsection \<open>Strings\<close>

text \<open>\<^verbatim>\<open>s.strip()\<close>: whitespace removed at both ends.\<close>

definition is_space :: "char \<Rightarrow> bool" where
  "is_space c = (c \<in> set [CHR '' '', CHR 0x09, CHR 0x0A, CHR 0x0B, CHR 0x0C, CHR 0x0D])"

definition py_strip :: "string \<Rightarrow> string" where
  "py_strip s = rev (dropWhile is_space (rev (dropWhile is_space s)))"

text \<open>
  \<^verbatim>\<open>s.split(' ')\<close>: cut at every single space; two spaces in a row give an empty
  piece, and the empty string gives one empty piece.
\<close>

fun py_split :: "string \<Rightarrow> string list" where
  "py_split [] = [[]]"
| "py_split (c # cs) =
     (if c = CHR '' '' then [] # py_split cs
      else (case py_split cs of
              w # ws \<Rightarrow> (c # w) # ws
            | [] \<Rightarrow> [[c]]))"

text \<open>\<^verbatim>\<open>' '.join(ws)\<close>, the inverse direction.\<close>

fun py_join :: "string list \<Rightarrow> string" where
  "py_join [] = []"
| "py_join [w] = w"
| "py_join (w # v # ws) = w @ CHR '' '' # py_join (v # ws)"

section \<open>The environment of a frame\<close>

text \<open>
  The sensor object behind \<^verbatim>\<open>aithre.sensor\<close>: what each of its two calls does when made
  (raise or return).
\<close>

record sensor =
  get_battery :: "py_exc + pyval"
  get_co_level :: "py_exc + pyval"

text \<open>
  The module \<^verbatim>\<open>aithre\<close> (not under src/): its four thresholds, taken as parameters,
  and the global sensor handle.
\<close>

record aithre_module =
  CO_WARNING :: int
  CO_SAFE :: int
  BATTERY_SAFE :: int
  BATTERY_WARNING :: int
  sensor :: "sensor option"

text \<open>
  The module \<^verbatim>\<open>configuration\<close>: the values \<^verbatim>\<open>render\<close> reads, already as text where
  the code formats them.
\<close>

record configuration =
  VERSION :: string
  aithre_enabled :: bool
  declination :: string
  traffic_manager_address :: string
  ownship_mode_s :: string
  ownship_icao :: string

text \<open>
  What the probes touch: the flags of \<^verbatim>\<open>lib.local_debug\<close>, the output of
  \<^verbatim>\<open>commands.getoutput('hostname -I')\<close>, the two socket calls, the thermal file (opening
  it gives a file whose \<^verbatim>\<open>read()\<close> raises or returns text) and the builtin \<^verbatim>\<open>float\<close>.
\<close>

record platform =
  IS_LINUX :: bool
  IS_PI :: bool
  hostname_I :: "py_exc + string"
  gethostname :: "py_exc + string"
  gethostbyname :: "string \<Rightarrow> py_exc + string"
  open_thermal :: "py_exc + (py_exc + string)"
  py_float :: "string \<Rightarrow> py_exc + pyfloat"

record frame_env =
  platform :: platform
  aithre :: aithre_module
  config :: configuration

section \<open>The probes\<close>

definition NORMAL_TEMP :: real where "NORMAL_TEMP = 50"
definition REDLINE_TEMP :: real where "REDLINE_TEMP = 80"

text \<open>
  The body of the \<^verbatim>\<open>try\<close> in \<^verbatim>\<open>get_ip_address\<close>, then the function with its bare
  \<^verbatim>\<open>except:\<close>.
\<close>

definition get_ip_address_try :: "platform \<Rightarrow> py_exc + sample" where
  "get_ip_address_try pf =
     (if IS_LINUX pf \<and> IS_PI pf then
        (case hostname_I pf of
           Inl e \<Rightarrow> Inl e
         | Inr out \<Rightarrow> Inr (py_strip out, GREEN))
      else
        (case gethostname pf of
           Inl e \<Rightarrow> Inl e
         | Inr host_name \<Rightarrow>
             (case gethostbyname pf host_name of
                Inl e \<Rightarrow> Inl e
              | Inr addr \<Rightarrow> Inr (addr, GREEN))))"

definition get_ip_address :: "platform \<Rightarrow> py_exc + sample" where
  "get_ip_address pf =
     (case get_ip_address_try pf of
        Inl e \<Rightarrow> Inr (''UNKNOWN'', RED)
      | Inr r \<Rightarrow> Inr r)"

text \<open>
  Modelled from the spec: \<^verbatim>\<open>colors.clamp\<close> and \<^verbatim>\<open>colors.get_color_mix\<close> of
  \<^verbatim>\<open>lib/colors.py\<close> (not under src/). The spec: the proportion is clamped to [0, 1]
  before use, and the colour is interpolated linearly, channel by channel, from the safe
  colour to the danger colour.
\<close>

definition clamp :: "real \<Rightarrow> real \<Rightarrow> real \<Rightarrow> real" where
  "clamp minimum v maximum =
     (if v < minimum then minimum else if v > maximum then maximum else v)"

fun get_color_mix :: "color \<Rightarrow> color \<Rightarrow> real \<Rightarrow> color" where
  "get_color_mix (lr, lg, lb) (rr, rg, rb) proportion =
     (let p = clamp 0 proportion 1
      in (lr + (rr - lr) * p, lg + (rg - lg) * p, lb + (rb - lb) * p))"

text \<open>
  \<^verbatim>\<open>get_cpu_temp_text_color\<close>. The temperature is a Python float; it is taken as a real
  number, so the two comparisons are exact and the subtraction and the division are the
  mathematical ones.
\<close>

definition get_cpu_temp_text_color :: "real \<Rightarrow> color" where
  "get_cpu_temp_text_color temperature =
     (if temperature > REDLINE_TEMP then RED
      else if temperature > NORMAL_TEMP then
        (let delta = temperature - NORMAL_TEMP;
             temp_range = REDLINE_TEMP - NORMAL_TEMP;
             delta' = clamp 0 delta temp_range;
             proportion = delta' / temp_range
         in get_color_mix GREEN RED proportion)
      else GREEN)"

text \<open>
  The body of the \<^verbatim>\<open>try\<close> in \<^verbatim>\<open>get_cpu_temp\<close>: \<open>Inr None\<close> when it falls through
  without returning (not on Linux), then the function with its bare \<^verbatim>\<open>except:\<close> and
  its last line. A float that is not finite stays so after the division; the colour is
  then computed without any effect, and \<^verbatim>\<open>int(math.floor(temp))\<close> raises. The division
  by 1000 is the one of the real numbers: the code rounds the quotient to binary64, which
  can change the digits of the text only for readings beyond what binary64 holds
  exactly (about \<open>2 ^ 53\<close>); no statement below depends on the text of such a reading.
\<close>

definition get_cpu_temp_try :: "platform \<Rightarrow> py_exc + sample option" where
  "get_cpu_temp_try pf =
     (if IS_LINUX pf then
        (case open_thermal pf of
           Inl e \<Rightarrow> Inl e
         | Inr linux_cpu_temp \<Rightarrow>
             (case linux_cpu_temp of
                Inl e \<Rightarrow> Inl e
              | Inr txt \<Rightarrow>
                  (case py_float pf txt of
                     Inl e \<Rightarrow> Inl e
                   | Inr (Finite temp0) \<Rightarrow>
                       (let temp = temp0 / 1000;
                            color = get_cpu_temp_text_color temp
                        in Inr (Some (str_int \<lfloor>temp\<rfloor> @ ''C'', color)))
                   | Inr PosInf \<Rightarrow> Inl (StdError ''OverflowError'')
                   | Inr NegInf \<Rightarrow> Inl (StdError ''OverflowError'')
                   | Inr NaN \<Rightarrow> Inl (StdError ''ValueError''))))
      else Inr None)"

definition get_cpu_temp :: "platform \<Rightarrow> py_exc + sample" where
  "get_cpu_temp pf =
     (case get_cpu_temp_try pf of
        Inl e \<Rightarrow> Inr (''---'', GRAY)
      | Inr (Some r) \<Rightarrow> Inr r
      | Inr None \<Rightarrow> Inr (''---'', GRAY))"

section \<open>Colours of the Aithre readings\<close>

definition get_aithre_co_color :: "aithre_module \<Rightarrow> pyval \<Rightarrow> color" where
  "get_aithre_co_color a co_ppm =
     (if py_gt co_ppm (CO_WARNING a) then RED
      else if py_gt co_ppm (CO_SAFE a) then YELLOW
      else BLUE)"

definition get_aithre_battery_color :: "aithre_module \<Rightarrow> pyval \<Rightarrow> color" where
  "get_aithre_battery_color a battery_percent =
     (if py_ge battery_percent (BATTERY_SAFE a) then GREEN
      else if py_ge battery_percent (BATTERY_WARNING a) then YELLOW
      else RED)"

section \<open>The diagnostics page\<close>

text \<open>
  The fields of \<^verbatim>\<open>SystemInfo\<close> that decide what a frame shows: the two countdowns,
  the two cached samples and the size of the framebuffer. The pixel positions of the
  layout are not modelled. \<^verbatim>\<open>__cpu_temp__\<close> can hold \<^verbatim>\<open>None\<close>.
\<close>

record system_info =
  update_ip_timer :: int
  update_temp_timer :: int
  ip_address :: sample
  cpu_temp :: "sample option"
  framebuffer_size :: "int \<times> int"

text \<open>\<^verbatim>\<open>SystemInfo.__init__\<close>.\<close>

definition SystemInfo_init :: "platform \<Rightarrow> int \<times> int \<Rightarrow> py_exc + system_info" where
  "SystemInfo_init pf fb =
     (case get_ip_address pf of
        Inl e \<Rightarrow> Inl e
      | Inr ip \<Rightarrow>
          Inr \<lparr>update_ip_timer = 0, update_temp_timer = 0, ip_address = ip,
               cpu_temp = None, framebuffer_size = fb\<rparr>)"

subsection \<open>The Aithre row\<close>

text \<open>
  The first \<^verbatim>\<open>try\<close> block of \<^verbatim>\<open>__get_aithre_text_and_color__\<close>: text and colour for
  the battery. The defaults are \<^verbatim>\<open>'UNK'\<close> and \<^verbatim>\<open>RED\<close>; \<^verbatim>\<open>except Exception\<close> changes
  the text only.
\<close>

definition aithre_battery :: "aithre_module \<Rightarrow> sensor \<Rightarrow> py_exc + sample" where
  "aithre_battery a sn =
     (case get_battery sn of
        Inl ex \<Rightarrow> (if is_Exception ex then Inr (''ERR'', RED) else Inl ex)
      | Inr battery \<Rightarrow>
          (let battery_suffix = (if is_basestring battery then [] else ''%'')
           in if battery \<noteq> PNone then
                Inr (''bat:'' @ py_str battery @ battery_suffix,
                     get_aithre_battery_color a battery)
              else Inr (''UNK'', RED)))"

text \<open>The second \<^verbatim>\<open>try\<close> block: text and colour for the CO level.\<close>

definition aithre_co :: "aithre_module \<Rightarrow> sensor \<Rightarrow> py_exc + sample" where
  "aithre_co a sn =
     (case get_co_level sn of
        Inl ex \<Rightarrow> (if is_Exception ex then Inr (''ERR'', RED) else Inl ex)
      | Inr co_ppm \<Rightarrow>
          (if co_ppm \<noteq> PNone then
             Inr (''co:'' @ py_str co_ppm @ ''ppm'', get_aithre_co_color a co_ppm)
           else Inr (''UNK'', RED)))"

text \<open>
  The expression that combines the two colours. The source compares with \<^verbatim>\<open>is\<close>; both
  colours are always one of the constants of \<^verbatim>\<open>lib.display\<close>, which are different
  objects with different values, so identity and equality agree on them.
\<close>

definition worst_color :: "color \<Rightarrow> color \<Rightarrow> color" where
  "worst_color co_color battery_color =
     (if co_color = RED \<or> battery_color = RED then RED
      else if co_color = YELLOW \<or> battery_color = YELLOW then YELLOW
      else BLUE)"

definition get_aithre_text_and_color ::
  "configuration \<Rightarrow> aithre_module \<Rightarrow> py_exc + sample" where
  "get_aithre_text_and_color cfg a =
     (case sensor a of
        None \<Rightarrow>
          Inr (if aithre_enabled cfg then (''DISCONNECTED'', RED) else (''DISABLED'', BLUE))
      | Some sn \<Rightarrow>
          (case aithre_battery a sn of
             Inl ex \<Rightarrow> Inl ex
           | Inr (battery_text, battery_color) \<Rightarrow>
               (case aithre_co a sn of
                  Inl ex \<Rightarrow> Inl ex
                | Inr (co_text, co_color) \<Rightarrow>
                    Inr (co_text @ '' '' @ battery_text,
                         worst_color co_color battery_color))))"

subsection \<open>One call of render\<close>

text \<open>
  A call of \<^verbatim>\<open>SystemInfo.render\<close> gives the object after the call, the probes it
  invoked, in order, and either the exception that left it or the rows it handed to the
  font, in list order. An exception leaves the fields as they were written up to then.
\<close>

datatype probe = IpProbe | TempProbe

type_synonym row = "string \<times> sample"

definition refresh_ip ::
  "platform \<Rightarrow> system_info \<Rightarrow> system_info \<times> probe list \<times> (py_exc + unit)" where
  "refresh_ip pf s =
     (let s1 = s\<lparr>update_ip_timer := update_ip_timer s - 1\<rparr>
      in if update_ip_timer s1 \<le> 0 then
           (case get_ip_address pf of
              Inl e \<Rightarrow> (s1, [IpProbe], Inl e)
            | Inr v \<Rightarrow> (s1\<lparr>ip_address := v, update_ip_timer := 120\<rparr>, [IpProbe], Inr ()))
         else (s1, [], Inr ()))"

definition refresh_temp ::
  "platform \<Rightarrow> system_info \<Rightarrow> system_info \<times> probe list \<times> (py_exc + unit)" where
  "refresh_temp pf s =
     (let s1 = s\<lparr>update_temp_timer := update_temp_timer s - 1\<rparr>
      in if update_temp_timer s1 \<le> 0 then
           (case get_cpu_temp pf of
              Inl e \<Rightarrow> (s1, [TempProbe], Inl e)
            | Inr v \<Rightarrow> (s1\<lparr>cpu_temp := Some v, update_temp_timer := 60\<rparr>, [TempProbe], Inr ()))
         else (s1, [], Inr ()))"

text \<open>The rows for the addresses: the loop over \<^verbatim>\<open>addresses\<close>.\<close>

definition ip_rows :: "sample \<Rightarrow> row list" where
  "ip_rows ip = map (\<lambda>addr. (''IP          : '', (addr, snd ip))) (py_split (fst ip))"

text \<open>
  The list \<^verbatim>\<open>info_lines\<close> and its drawing. The Aithre row is computed while the list
  is built; the drawing loop subscripts the value of every row, which raises
  \<^verbatim>\<open>TypeError\<close> at the CPU row when \<^verbatim>\<open>__cpu_temp__\<close> is \<^verbatim>\<open>None\<close>.
\<close>

definition info_lines :: "frame_env \<Rightarrow> system_info \<Rightarrow> py_exc + row list" where
  "info_lines env s =
     (case get_aithre_text_and_color (config env) (aithre env) of
        Inl e \<Rightarrow> Inl e
      | Inr aithre_sample \<Rightarrow>
          (case cpu_temp s of
             None \<Rightarrow> Inl (StdError ''TypeError'')
           | Some cpu \<Rightarrow>
               Inr ([(''VERSION     : '', (VERSION (config env), YELLOW)),
                     (''DECLINATION : '', (declination (config env), BLUE)),
                     (''TRAFFIC     : '', (traffic_manager_address (config env), BLUE))]
                    @ ip_rows (ip_address s)
                    @ [(''AITHRE      : '', aithre_sample),
                       (''HUD CPU     : '', cpu),
                       (''OWNSHIP     : '',
                          (ownship_mode_s (config env) @ ''/'' @ ownship_icao (config env), BLUE)),
                       (''DISPLAY RES : '',
                          (str_int (fst (framebuffer_size s)) @ '' x ''
                             @ str_int (snd (framebuffer_size s)), BLUE))])))"

definition render ::
  "frame_env \<Rightarrow> system_info \<Rightarrow> system_info \<times> probe list \<times> (py_exc + row list)" where
  "render env s =
     (case refresh_ip (platform env) s of
        (s1, p1, Inl e) \<Rightarrow> (s1, p1, Inl e)
      | (s1, p1, Inr _) \<Rightarrow>
          (case refresh_temp (platform env) s1 of
             (s2, p2, Inl e) \<Rightarrow> (s2, p1 @ p2, Inl e)
           | (s2, p2, Inr _) \<Rightarrow> (s2, p1 @ p2, info_lines env s2)))"

text \<open>
  A sequence of calls, one environment per frame: the object at the end and the probes
  each call invoked.
\<close>

fun run_render :: "frame_env list \<Rightarrow> system_info \<Rightarrow> system_info \<times> probe list list" where
  "run_render [] s = (s, [])"
| "run_render (env # envs) s =
     (case render env s of
        (s1, ps, _) \<Rightarrow>
          (case run_render envs s1 of
             (s2, pss) \<Rightarrow> (s2, ps # pss)))"

section \<open>The Aithre element\<close>

record aithre_element =
  text_y_pos :: int
  lhs :: int
  has_been_connected :: bool

text \<open>\<^verbatim>\<open>Aithre.__init__\<close>; \<^verbatim>\<open>>> k\<close> on a Python integer is the floor of the division.\<close>

definition Aithre_init :: "int \<Rightarrow> int \<times> int \<Rightarrow> aithre_element" where
  "Aithre_init font_height fb =
     (let center_y = snd fb div 4;
          text_half_height = font_height div 2
      in \<lparr>text_y_pos = center_y - text_half_height, lhs = 0, has_been_connected = False\<rparr>)"

text \<open>
  \<^verbatim>\<open>Aithre.render\<close>: the element after the call and either the exception that left it
  or what was drawn, if anything: text, colour and position.
\<close>

type_synonym drawn = "string \<times> color \<times> int \<times> int"

definition Aithre_render ::
  "frame_env \<Rightarrow> aithre_element \<Rightarrow> aithre_element \<times> (py_exc + drawn option)" where
  "Aithre_render env s =
     (case sensor (aithre env) of
        None \<Rightarrow> (s, Inr None)
      | Some sn \<Rightarrow>
          if aithre_enabled (config env) then
            (case get_co_level sn of
               Inl e \<Rightarrow> (s, Inl e)
             | Inr co_level \<Rightarrow>
                 if co_level = PNone \<or> is_basestring co_level then
                   if has_been_connected s then
                     (s, Inr (Some (''OFFLINE'', RED, lhs s, text_y_pos s)))
                   else (s, Inr None)
                 else
                   (s\<lparr>has_been_connected := True\<rparr>,
                    Inr (Some (str_int (py_int co_level) @ '' PPM'',
                               get_aithre_co_color (aithre env) co_level,
                               lhs s, text_y_pos s))))
          else (s, Inr None))"

text \<open>
  A sequence of calls on one element: the element at the end and what each call gave.
\<close>

fun run_aithre ::
  "frame_env list \<Rightarrow> aithre_element \<Rightarrow> aithre_element \<times> (py_exc + drawn option) list" where
  "run_aithre [] s = (s, [])"
| "run_aithre (env # envs) s =
     (case Aithre_render env s of
        (s1, r) \<Rightarrow>
          (case run_aithre envs s1 of
             (s2, rs) \<Rightarrow> (s2, r # rs)))"

section \<open>Notions used in the statements\<close>

text \<open>The severity of a colour: danger above caution above everything else.\<close>

definition severity :: "color \<Rightarrow> nat" where
  "severity c = (if c = RED then 2 else if c = YELLOW then 1 else 0)"

text \<open>
  A frame in which \<^verbatim>\<open>Aithre.render\<close> obtains a numeric CO reading: the sensor is
  present, Aithre is enabled, and \<^verbatim>\<open>get_co_level()\<close> returns a number.
\<close>

definition numeric_co :: "frame_env \<Rightarrow> bool" where
  "numeric_co env =
     (case sensor (aithre env) of
        None \<Rightarrow> False
      | Some sn \<Rightarrow>
          aithre_enabled (config env)
          \<and> (case get_co_level sn of Inr (PInt n) \<Rightarrow> True | _ \<Rightarrow> False))"

text \<open>Concrete environments on which the theorems are exercised.\<close>

definition demo_config :: "bool \<Rightarrow> configuration" where
  "demo_config enabled =
     \<lparr>VERSION = ''1.6'', aithre_enabled = enabled, declination = ''0.0'',
      traffic_manager_address = ''192.168.10.1'', ownship_mode_s = ''True'',
      ownship_icao = ''A1B2C3''\<rparr>"

definition demo_aithre :: "sensor option \<Rightarrow> aithre_module" where
  "demo_aithre sn =
     \<lparr>CO_WARNING = 49, CO_SAFE = 10, BATTERY_SAFE = 75, BATTERY_WARNING = 25, sensor = sn\<rparr>"

definition demo_platform :: "bool \<Rightarrow> platform" where
  "demo_platform linux =
     \<lparr>IS_LINUX = linux, IS_PI = False,
      hostname_I = Inr ''192.168.1.10 10.0.0.7 '',
      gethostname = Inl (StdError ''socket.error''),
      gethostbyname = (\<lambda>h. Inr ''127.0.0.1''),
      open_thermal = Inl (StdError ''IOError''),
      py_float = (\<lambda>t. Inl (StdError ''ValueError''))\<rparr>"

definition pi_platform :: platform where
  "pi_platform =
     \<lparr>IS_LINUX = True, IS_PI = True,
      hostname_I = Inr ''192.168.1.10 10.0.0.7 '',
      gethostname = Inr ''raspberrypi'',
      gethostbyname = (\<lambda>h. Inr ''127.0.1.1''),
      open_thermal = Inr (Inr ''65000''),
      py_float = (\<lambda>t. if t = ''65000'' then Inr (Finite 65000) else Inl (StdError ''ValueError''))\<rparr>"

definition demo_env :: frame_env where
  "demo_env = \<lparr>platform = pi_platform, aithre = demo_aithre None, config = demo_config False\<rparr>"

definition demo_state :: system_info where
  "demo_state =
     \<lparr>update_ip_timer = 120, update_temp_timer = 60,
      ip_address = (''192.168.1.10 10.0.0.7'', GREEN),
      cpu_temp = Some (''45C'', GREEN), framebuffer_size = (800, 480)\<rparr>"

definition co_env :: "py_exc + pyval \<Rightarrow> frame_env" where
  "co_env co =
     \<lparr>platform = pi_platform,
      aithre = demo_aithre (Some \<lparr>get_battery = Inr (PInt 80), get_co_level = co\<rparr>),
      config = demo_config True\<rparr>"

section \<open>Properties\<close>

subsection \<open>Colours\<close>

lemma colors_distinct:
  "RED \<noteq> YELLOW" "RED \<noteq> GREEN" "RED \<noteq> BLUE" "YELLOW \<noteq> GREEN" "YELLOW \<noteq> BLUE"
  "GREEN \<noteq> BLUE" "YELLOW \<noteq> RED" "GREEN \<noteq> RED" "BLUE \<noteq> RED" "GREEN \<noteq> YELLOW"
  "BLUE \<noteq> YELLOW" "BLUE \<noteq> GREEN"
  by (simp_all add: RED_def YELLOW_def GREEN_def BLUE_def)

lemma battery_color_cases:
  "get_aithre_battery_color a b \<in> {RED, YELLOW, GREEN}"
  by (simp add: get_aithre_battery_color_def)

lemma co_color_cases:
  "get_aithre_co_color a c \<in> {RED, YELLOW, BLUE}"
  by (simp add: get_aithre_co_color_def)

lemma aithre_battery_color:
  "aithre_battery a sn = Inr (t, c) \<Longrightarrow> c \<in> {RED, YELLOW, GREEN}"
  using battery_color_cases [of a]
  by (auto simp: aithre_battery_def Let_def split: sum.splits if_splits)

lemma aithre_co_color:
  "aithre_co a sn = Inr (t, c) \<Longrightarrow> c \<in> {RED, YELLOW, BLUE}"
  using co_color_cases [of a]
  by (auto simp: aithre_co_def split: sum.splits if_splits)

lemma worst_color_severity:
  "severity (worst_color c b) = max (severity c) (severity b)"
  by (simp add: worst_color_def severity_def colors_distinct)

lemma worst_color_cases: "worst_color c b \<in> {RED, YELLOW, BLUE}"
  by (simp add: worst_color_def)

subsection \<open>The worst-of rule\<close>

text \<open>
  Claim C1. With a sensor present, let the battery colour and the CO colour be the two
  colours that \<^verbatim>\<open>__get_aithre_text_and_color__\<close> computes. The battery colour is red,
  yellow or green, the CO colour is red, yellow or blue, and the colour returned is the
  one of red, yellow and blue whose severity is the larger of the two severities: red if
  either is red, else yellow if either is yellow, else blue. In particular a yellow
  battery with a safe CO level gives yellow, a safe battery with a red CO level gives
  red, and two safe readings give blue.
\<close>

theorem aithre_color_is_worst_of:
  assumes "sensor a = Some sn"
    and "aithre_battery a sn = Inr (battery_text, battery_color)"
    and "aithre_co a sn = Inr (co_text, co_color)"
  shows "\<exists>color. get_aithre_text_and_color cfg a = Inr (co_text @ '' '' @ battery_text, color)
           \<and> battery_color \<in> {RED, YELLOW, GREEN} \<and> co_color \<in> {RED, YELLOW, BLUE}
           \<and> color \<in> {RED, YELLOW, BLUE}
           \<and> severity color = max (severity battery_color) (severity co_color)
           \<and> (color = RED \<longleftrightarrow> battery_color = RED \<or> co_color = RED)
           \<and> (color = YELLOW \<longleftrightarrow>
                battery_color \<noteq> RED \<and> co_color \<noteq> RED \<and> (battery_color = YELLOW \<or> co_color = YELLOW))
           \<and> (battery_color = YELLOW \<and> co_color = BLUE \<longrightarrow> color = YELLOW)
           \<and> (battery_color = GREEN \<and> co_color = RED \<longrightarrow> color = RED)
           \<and> (battery_color = GREEN \<and> co_color = BLUE \<longrightarrow> color = BLUE)"
proof -
  have res: "get_aithre_text_and_color cfg a =
      Inr (co_text @ '' '' @ battery_text, worst_color co_color battery_color)"
    using assms by (simp add: get_aithre_text_and_color_def)
  have b: "battery_color \<in> {RED, YELLOW, GREEN}"
    using assms(2) by (rule aithre_battery_color)
  have c: "co_color \<in> {RED, YELLOW, BLUE}"
    using assms(3) by (rule aithre_co_color)
  have sev: "severity (worst_color co_color battery_color)
      = max (severity battery_color) (severity co_color)"
    by (simp add: worst_color_severity max.commute)
  show ?thesis
    using res b c sev worst_color_cases [of co_color battery_color]
    by (auto simp: worst_color_def colors_distinct)
qed

theorem aithre_color_is_worst_of_witness:
  "sensor (demo_aithre (Some \<lparr>get_battery = Inr (PInt 50), get_co_level = Inr (PInt 5)\<rparr>))
     = Some \<lparr>get_battery = Inr (PInt 50), get_co_level = Inr (PInt 5)\<rparr>
   \<and> get_aithre_text_and_color (demo_config True)
       (demo_aithre (Some \<lparr>get_battery = Inr (PInt 50), get_co_level = Inr (PInt 5)\<rparr>))
     = Inr (''co:5ppm bat:50%'', YELLOW)"
proof -
  let ?sn = "\<lparr>get_battery = Inr (PInt 50), get_co_level = Inr (PInt 5)\<rparr>"
  let ?a = "demo_aithre (Some ?sn)"
  have h1: "sensor ?a = Some ?sn" by (simp add: demo_aithre_def)
  have h2: "aithre_battery ?a ?sn = Inr (''bat:50%'', YELLOW)"
    by (simp add: aithre_battery_def get_aithre_battery_color_def demo_aithre_def
        str_int_def str_nat.simps)
  have h3: "aithre_co ?a ?sn = Inr (''co:5ppm'', BLUE)"
    by (simp add: aithre_co_def get_aithre_co_color_def demo_aithre_def
        str_int_def str_nat.simps)
  show ?thesis
    using aithre_color_is_worst_of [OF h1 h2 h3, of "demo_config True"] h1
    by auto
qed

subsection \<open>No sensor\<close>

text \<open>
  Claim C5. When \<^verbatim>\<open>aithre.sensor\<close> is \<^verbatim>\<open>None\<close>, the Aithre row is
  \<^verbatim>\<open>('DISABLED', BLUE)\<close> if the configuration has Aithre disabled and
  \<^verbatim>\<open>('DISCONNECTED', RED)\<close> if it has Aithre enabled; the two texts differ and the
  two colours differ.
\<close>

theorem aithre_absent_sensor:
  assumes "sensor a = None"
  shows "(\<not> aithre_enabled cfg \<longrightarrow> get_aithre_text_and_color cfg a = Inr (''DISABLED'', BLUE))
       \<and> (aithre_enabled cfg \<longrightarrow> get_aithre_text_and_color cfg a = Inr (''DISCONNECTED'', RED))
       \<and> ''DISABLED'' \<noteq> ''DISCONNECTED'' \<and> BLUE \<noteq> RED"
  using assms by (simp add: get_aithre_text_and_color_def colors_distinct)

theorem aithre_absent_sensor_witness:
  "sensor (demo_aithre None) = None
   \<and> \<not> aithre_enabled (demo_config False) \<and> aithre_enabled (demo_config True)
   \<and> get_aithre_text_and_color (demo_config False) (demo_aithre None) = Inr (''DISABLED'', BLUE)
   \<and> get_aithre_text_and_color (demo_config True) (demo_aithre None) = Inr (''DISCONNECTED'', RED)"
proof -
  have h: "sensor (demo_aithre None) = None" by (simp add: demo_aithre_def)
  show ?thesis
    using aithre_absent_sensor [OF h, of "demo_config False"]
      aithre_absent_sensor [OF h, of "demo_config True"] h
    by (simp add: demo_config_def)
qed

lemma ex_triple: "\<exists>a b c. x = (a, b, c)"
  by (cases x) auto

subsection \<open>A battery reading that is missing or fails\<close>

lemma battery_danger_red:
  "n < BATTERY_SAFE a \<Longrightarrow> n < BATTERY_WARNING a \<Longrightarrow>
     get_aithre_battery_color a (PInt n) = RED"
  by (simp add: get_aithre_battery_color_def)

lemma worst_color_red_right: "worst_color c RED = RED"
  by (simp add: worst_color_def)

lemma aithre_row_with_red_battery:
  assumes "sensor a = Some sn" and "aithre_battery a sn = Inr (t, RED)"
  shows "map_sum id snd (get_aithre_text_and_color cfg a)
         = (case aithre_co a sn of Inl ex \<Rightarrow> Inl ex | Inr r \<Rightarrow> Inr RED)"
  using assms
  by (simp add: get_aithre_text_and_color_def worst_color_red_right
      split: sum.splits prod.splits)

text \<open>
  Claim C8. With a sensor present whose \<^verbatim>\<open>get_battery()\<close> returns \<^verbatim>\<open>None\<close> or raises,
  every colour that \<^verbatim>\<open>__get_aithre_text_and_color__\<close> returns is red, whatever the CO
  reading; when what the two calls raise, if anything, is an \<^verbatim>\<open>Exception\<close> (which the
  code catches), the function does return, with red, also for a CO level in its safe
  band. A battery percentage in the danger band (below both battery thresholds) has the
  battery colour red as well, and with the same CO reading the function gives the same
  outcome in colour for it as for the missing or failed reading: by its colour, the row
  of a missing or failed battery reading cannot be told from the row of a battery in
  danger.
\<close>

theorem missing_battery_is_red:
  assumes "sensor a = Some sn"
    and "get_battery sn = Inr PNone \<or> (\<exists>ex. get_battery sn = Inl ex)"
  shows "(\<forall>txt color. get_aithre_text_and_color cfg a = Inr (txt, color) \<longrightarrow> color = RED)
       \<and> ((\<forall>ex. get_battery sn = Inl ex \<or> get_co_level sn = Inl ex \<longrightarrow> is_Exception ex)
            \<longrightarrow> (\<exists>txt. get_aithre_text_and_color cfg a = Inr (txt, RED)))
       \<and> (\<forall>co_ppm. get_co_level sn = Inr co_ppm \<and> co_ppm \<noteq> PNone
              \<and> get_aithre_co_color a co_ppm = BLUE
              \<and> (\<forall>ex. get_battery sn = Inl ex \<longrightarrow> is_Exception ex)
            \<longrightarrow> (\<exists>txt. get_aithre_text_and_color cfg a = Inr (txt, RED)))
       \<and> (\<forall>n. n < BATTERY_SAFE a \<and> n < BATTERY_WARNING a \<longrightarrow>
             get_aithre_battery_color a (PInt n) = RED
           \<and> aithre_battery (a\<lparr>sensor := Some (sn\<lparr>get_battery := Inr (PInt n)\<rparr>)\<rparr>)
                 (sn\<lparr>get_battery := Inr (PInt n)\<rparr>)
               = Inr (''bat:'' @ str_int n @ ''%'', RED)
           \<and> (\<forall>txt color.
                 get_aithre_text_and_color cfg
                     (a\<lparr>sensor := Some (sn\<lparr>get_battery := Inr (PInt n)\<rparr>)\<rparr>)
                   = Inr (txt, color)
                 \<longrightarrow> color = RED)
           \<and> ((\<forall>ex. get_battery sn = Inl ex \<longrightarrow> is_Exception ex) \<longrightarrow>
                 map_sum id snd (get_aithre_text_and_color cfg a)
                 = map_sum id snd
                     (get_aithre_text_and_color cfg
                        (a\<lparr>sensor := Some (sn\<lparr>get_battery := Inr (PInt n)\<rparr>)\<rparr>))))"
proof -
  have bat: "\<forall>t c. aithre_battery a sn = Inr (t, c) \<longrightarrow> c = RED"
    using assms(2) by (auto simp: aithre_battery_def split: if_splits)
  have bat_ok: "(\<forall>ex. get_battery sn = Inl ex \<longrightarrow> is_Exception ex)
      \<Longrightarrow> \<exists>t. aithre_battery a sn = Inr (t, RED)"
    using assms(2) by (auto simp: aithre_battery_def)
  have co_ok: "(\<forall>ex. get_co_level sn = Inl ex \<longrightarrow> is_Exception ex)
      \<Longrightarrow> \<exists>t c. aithre_co a sn = Inr (t, c)"
    by (cases "get_co_level sn") (auto simp: aithre_co_def ex_triple)
  have red: "\<And>c. worst_color c RED = RED"
    by (simp add: worst_color_def)
  have 1: "\<forall>txt color. get_aithre_text_and_color cfg a = Inr (txt, color) \<longrightarrow> color = RED"
    using assms(1) bat red
    by (auto simp: get_aithre_text_and_color_def split: sum.splits prod.splits)
  have 2: "(\<forall>ex. get_battery sn = Inl ex \<or> get_co_level sn = Inl ex \<longrightarrow> is_Exception ex)
            \<longrightarrow> (\<exists>txt. get_aithre_text_and_color cfg a = Inr (txt, RED))"
  proof
    assume h: "\<forall>ex. get_battery sn = Inl ex \<or> get_co_level sn = Inl ex \<longrightarrow> is_Exception ex"
    from h bat_ok obtain t where t: "aithre_battery a sn = Inr (t, RED)" by blast
    from h co_ok obtain u c where u: "aithre_co a sn = Inr (u, c)" by blast
    show "\<exists>txt. get_aithre_text_and_color cfg a = Inr (txt, RED)"
      using assms(1) t u red by (simp add: get_aithre_text_and_color_def)
  qed
  have 3: "\<forall>co_ppm. get_co_level sn = Inr co_ppm \<and> co_ppm \<noteq> PNone
              \<and> get_aithre_co_color a co_ppm = BLUE
              \<and> (\<forall>ex. get_battery sn = Inl ex \<longrightarrow> is_Exception ex)
            \<longrightarrow> (\<exists>txt. get_aithre_text_and_color cfg a = Inr (txt, RED))"
    using 2 by auto
  have 4: "get_aithre_battery_color a (PInt n) = RED
           \<and> aithre_battery (a\<lparr>sensor := Some (sn\<lparr>get_battery := Inr (PInt n)\<rparr>)\<rparr>)
                 (sn\<lparr>get_battery := Inr (PInt n)\<rparr>)
               = Inr (''bat:'' @ str_int n @ ''%'', RED)
           \<and> (\<forall>txt color.
                 get_aithre_text_and_color cfg
                     (a\<lparr>sensor := Some (sn\<lparr>get_battery := Inr (PInt n)\<rparr>)\<rparr>)
                   = Inr (txt, color)
                 \<longrightarrow> color = RED)
           \<and> ((\<forall>ex. get_battery sn = Inl ex \<longrightarrow> is_Exception ex) \<longrightarrow>
                 map_sum id snd (get_aithre_text_and_color cfg a)
                 = map_sum id snd
                     (get_aithre_text_and_color cfg
                        (a\<lparr>sensor := Some (sn\<lparr>get_battery := Inr (PInt n)\<rparr>)\<rparr>)))"
    if lo: "n < BATTERY_SAFE a" "n < BATTERY_WARNING a" for n
  proof -
    let ?sn = "sn\<lparr>get_battery := Inr (PInt n)\<rparr>"
    let ?a = "a\<lparr>sensor := Some ?sn\<rparr>"
    have d1: "get_aithre_battery_color a (PInt n) = RED"
      using lo by (rule battery_danger_red)
    have d2: "aithre_battery ?a ?sn = Inr (''bat:'' @ str_int n @ ''%'', RED)"
      using lo by (simp add: aithre_battery_def get_aithre_battery_color_def)
    have co: "aithre_co ?a ?sn = aithre_co a sn"
      by (simp add: aithre_co_def get_aithre_co_color_def split: sum.splits)
    have sa: "sensor ?a = Some ?sn" by simp
    have danger: "map_sum id snd (get_aithre_text_and_color cfg ?a)
        = (case aithre_co a sn of Inl ex \<Rightarrow> Inl ex | Inr r \<Rightarrow> Inr RED)"
      using aithre_row_with_red_battery [OF sa d2, of cfg] by (simp only: co)
    have d3: "\<forall>txt color. get_aithre_text_and_color cfg ?a = Inr (txt, color) \<longrightarrow> color = RED"
    proof (intro allI impI)
      fix tx color
      assume "get_aithre_text_and_color cfg ?a = Inr (tx, color)"
      then have "map_sum id snd (get_aithre_text_and_color cfg ?a) = Inr color" by simp
      with danger show "color = RED" by (simp split: sum.splits)
    qed
    have d4: "(\<forall>ex. get_battery sn = Inl ex \<longrightarrow> is_Exception ex) \<longrightarrow>
                 map_sum id snd (get_aithre_text_and_color cfg a)
                 = map_sum id snd (get_aithre_text_and_color cfg ?a)"
    proof
      assume "\<forall>ex. get_battery sn = Inl ex \<longrightarrow> is_Exception ex"
      with bat_ok obtain t where "aithre_battery a sn = Inr (t, RED)" by blast
      from aithre_row_with_red_battery [OF assms(1) this, of cfg] danger
      show "map_sum id snd (get_aithre_text_and_color cfg a)
                 = map_sum id snd (get_aithre_text_and_color cfg ?a)"
        by (simp only:)
    qed
    show ?thesis using d1 d2 d3 d4 by (intro conjI)
  qed
  show ?thesis using 1 2 3 4 by blast
qed

theorem missing_battery_is_red_witness:
  "get_aithre_text_and_color (demo_config True)
       (demo_aithre (Some \<lparr>get_battery = Inr PNone, get_co_level = Inr (PInt 5)\<rparr>))
     = Inr (''co:5ppm UNK'', RED)
   \<and> get_aithre_co_color
       (demo_aithre (Some \<lparr>get_battery = Inr PNone, get_co_level = Inr (PInt 5)\<rparr>)) (PInt 5)
     = BLUE
   \<and> (\<exists>txt. get_aithre_text_and_color (demo_config True)
       (demo_aithre (Some \<lparr>get_battery = Inl (StdError ''IOError''), get_co_level = Inr (PInt 5)\<rparr>))
     = Inr (txt, RED))
   \<and> get_aithre_battery_color
       (demo_aithre (Some \<lparr>get_battery = Inr PNone, get_co_level = Inr (PInt 5)\<rparr>)) (PInt 10)
     = RED
   \<and> get_aithre_text_and_color (demo_config True)
       (demo_aithre (Some \<lparr>get_battery = Inr (PInt 10), get_co_level = Inr (PInt 5)\<rparr>))
     = Inr (''co:5ppm bat:10%'', RED)
   \<and> map_sum id snd (get_aithre_text_and_color (demo_config True)
       (demo_aithre (Some \<lparr>get_battery = Inr PNone, get_co_level = Inr (PInt 5)\<rparr>)))
     = map_sum id snd (get_aithre_text_and_color (demo_config True)
       (demo_aithre (Some \<lparr>get_battery = Inr (PInt 10), get_co_level = Inr (PInt 5)\<rparr>)))"
proof -
  let ?sn = "\<lparr>get_battery = Inr PNone, get_co_level = Inr (PInt 5)\<rparr>"
  let ?a = "demo_aithre (Some ?sn)"
  let ?sn2 = "\<lparr>get_battery = Inl (StdError ''IOError''), get_co_level = Inr (PInt 5)\<rparr>"
  let ?a2 = "demo_aithre (Some ?sn2)"
  let ?sn3 = "\<lparr>get_battery = Inr (PInt 10), get_co_level = Inr (PInt 5)\<rparr>"
  let ?a3 = "demo_aithre (Some ?sn3)"
  have h1: "sensor ?a = Some ?sn" by (simp add: demo_aithre_def)
  have h2: "get_battery ?sn = Inr PNone \<or> (\<exists>ex. get_battery ?sn = Inl ex)" by simp
  have k1: "sensor ?a2 = Some ?sn2" by (simp add: demo_aithre_def)
  have k2: "get_battery ?sn2 = Inr PNone \<or> (\<exists>ex. get_battery ?sn2 = Inl ex)" by simp
  have row: "get_aithre_text_and_color (demo_config True) ?a
      = Inr (''co:5ppm UNK'', worst_color (get_aithre_co_color ?a (PInt 5)) RED)"
    by (simp add: get_aithre_text_and_color_def aithre_battery_def aithre_co_def demo_aithre_def
        str_int_def str_nat.simps)
  have blue: "get_aithre_co_color ?a (PInt 5) = BLUE"
    by (simp add: get_aithre_co_color_def demo_aithre_def)
  have a3: "?a\<lparr>sensor := Some (?sn\<lparr>get_battery := Inr (PInt 10)\<rparr>)\<rparr> = ?a3"
    by (simp add: demo_aithre_def)
  have band: "(10::int) < BATTERY_SAFE ?a \<and> 10 < BATTERY_WARNING ?a"
    by (simp add: demo_aithre_def)
  have exc: "\<forall>ex. get_battery ?sn = Inl ex \<longrightarrow> is_Exception ex" by simp
  note t = missing_battery_is_red [OF h1 h2, of "demo_config True"]
  note d = t [THEN conjunct2, THEN conjunct2, THEN conjunct2, THEN spec, THEN mp, OF band]
  have c1: "get_aithre_battery_color ?a (PInt 10) = RED"
    using d by (rule conjunct1)
  have c2: "map_sum id snd (get_aithre_text_and_color (demo_config True) ?a)
     = map_sum id snd (get_aithre_text_and_color (demo_config True) ?a3)"
    using d [THEN conjunct2, THEN conjunct2, THEN conjunct2, THEN mp, OF exc]
    by (simp only: a3)
  have row3: "get_aithre_text_and_color (demo_config True) ?a3
      = Inr (''co:5ppm bat:10%'', worst_color (get_aithre_co_color ?a3 (PInt 5))
              (get_aithre_battery_color ?a3 (PInt 10)))"
    by (simp add: get_aithre_text_and_color_def aithre_battery_def aithre_co_def demo_aithre_def
        str_int_def str_nat.simps)
  have red3: "get_aithre_battery_color ?a3 (PInt 10) = RED"
    using c1 by (simp add: get_aithre_battery_color_def demo_aithre_def)
  have c3: "get_aithre_text_and_color (demo_config True) ?a3 = Inr (''co:5ppm bat:10%'', RED)"
    by (simp only: row3 red3 worst_color_red_right)
  have c0: "get_aithre_text_and_color (demo_config True) ?a = Inr (''co:5ppm UNK'', RED)"
    by (simp only: row worst_color_red_right)
  have c4: "\<exists>txt. get_aithre_text_and_color (demo_config True) ?a2 = Inr (txt, RED)"
    using missing_battery_is_red [OF k1 k2, of "demo_config True"] by auto
  show ?thesis using c0 blue c4 c1 c3 c2 by (intro conjI)
qed

subsection \<open>The probes do not raise\<close>

lemma get_ip_address_total: "\<exists>r. get_ip_address pf = Inr r"
  by (simp add: get_ip_address_def ex_triple split: sum.split)

lemma get_cpu_temp_total: "\<exists>r. get_cpu_temp pf = Inr r"
  by (simp add: get_cpu_temp_def ex_triple split: sum.split option.split)

lemma get_ip_address_caught:
  "get_ip_address_try pf = Inl e \<Longrightarrow> get_ip_address pf = Inr (''UNKNOWN'', RED)"
  by (simp add: get_ip_address_def)

lemma get_cpu_temp_caught:
  "get_cpu_temp_try pf = Inl e \<Longrightarrow> get_cpu_temp pf = Inr (''---'', GRAY)"
  by (simp add: get_cpu_temp_def)

lemma ip_failures:
  "IS_LINUX pf \<and> IS_PI pf \<and> hostname_I pf = Inl e \<Longrightarrow> get_ip_address_try pf = Inl e"
  "\<not> (IS_LINUX pf \<and> IS_PI pf) \<and> gethostname pf = Inl e \<Longrightarrow> get_ip_address_try pf = Inl e"
  "\<not> (IS_LINUX pf \<and> IS_PI pf) \<and> gethostname pf = Inr h \<and> gethostbyname pf h = Inl e
     \<Longrightarrow> get_ip_address_try pf = Inl e"
  by (auto simp: get_ip_address_try_def)

lemma cpu_failures:
  "IS_LINUX pf \<and> open_thermal pf = Inl e \<Longrightarrow> get_cpu_temp_try pf = Inl e"
  "IS_LINUX pf \<and> open_thermal pf = Inr (Inl e) \<Longrightarrow> get_cpu_temp_try pf = Inl e"
  "IS_LINUX pf \<and> open_thermal pf = Inr (Inr txt) \<and> py_float pf txt = Inl e
     \<Longrightarrow> get_cpu_temp_try pf = Inl e"
  "IS_LINUX pf \<and> open_thermal pf = Inr (Inr txt) \<and> py_float pf txt = Inr v
     \<and> v \<in> {PosInf, NegInf, NaN}
     \<Longrightarrow> \<exists>e'. get_cpu_temp_try pf = Inl e'"
  by (auto simp: get_cpu_temp_try_def)

lemma refresh_ip_no_raise: "\<exists>s1 ps. refresh_ip pf s = (s1, ps, Inr ())"
  using get_ip_address_total [of pf]
  by (auto simp: refresh_ip_def Let_def)

lemma refresh_temp_no_raise: "\<exists>s1 ps. refresh_temp pf s = (s1, ps, Inr ())"
  using get_cpu_temp_total [of pf]
  by (auto simp: refresh_temp_def Let_def)

lemma render_outcome: "\<exists>s2 ps. render env s = (s2, ps, info_lines env s2)"
proof -
  obtain s1 p1 where 1: "refresh_ip (platform env) s = (s1, p1, Inr ())"
    using refresh_ip_no_raise by blast
  obtain s2 p2 where 2: "refresh_temp (platform env) s1 = (s2, p2, Inr ())"
    using refresh_temp_no_raise by blast
  show ?thesis using 1 2 by (simp add: render_def)
qed

text \<open>
  Claim C4. \<^verbatim>\<open>get_ip_address\<close> and \<^verbatim>\<open>get_cpu_temp\<close> always return a sample. Whenever
  the body of the \<^verbatim>\<open>try\<close> raises (the hostname command or lookup fails, the thermal
  file cannot be opened or read, its text does not parse or parses to a float that is
  not finite), the first returns
  \<^verbatim>\<open>('UNKNOWN', RED)\<close> and the second \<^verbatim>\<open>('---', GRAY)\<close>. The two refresh steps of
  \<^verbatim>\<open>render\<close> therefore never raise, and an exception can leave \<^verbatim>\<open>render\<close> only from
  the building and drawing of the rows.
\<close>

theorem probes_never_raise:
  "(\<exists>r. get_ip_address pf = Inr r) \<and> (\<exists>r. get_cpu_temp pf = Inr r)
   \<and> (\<forall>e. get_ip_address_try pf = Inl e \<longrightarrow> get_ip_address pf = Inr (''UNKNOWN'', RED))
   \<and> (\<forall>e. get_cpu_temp_try pf = Inl e \<longrightarrow> get_cpu_temp pf = Inr (''---'', GRAY))
   \<and> (\<forall>e. IS_LINUX pf \<and> IS_PI pf \<and> hostname_I pf = Inl e
          \<longrightarrow> get_ip_address pf = Inr (''UNKNOWN'', RED))
   \<and> (\<forall>e. \<not> (IS_LINUX pf \<and> IS_PI pf) \<and> gethostname pf = Inl e
          \<longrightarrow> get_ip_address pf = Inr (''UNKNOWN'', RED))
   \<and> (\<forall>e h. \<not> (IS_LINUX pf \<and> IS_PI pf) \<and> gethostname pf = Inr h \<and> gethostbyname pf h = Inl e
          \<longrightarrow> get_ip_address pf = Inr (''UNKNOWN'', RED))
   \<and> (\<forall>e. IS_LINUX pf \<and> open_thermal pf = Inl e \<longrightarrow> get_cpu_temp pf = Inr (''---'', GRAY))
   \<and> (\<forall>e. IS_LINUX pf \<and> open_thermal pf = Inr (Inl e)
          \<longrightarrow> get_cpu_temp pf = Inr (''---'', GRAY))
   \<and> (\<forall>e txt. IS_LINUX pf \<and> open_thermal pf = Inr (Inr txt) \<and> py_float pf txt = Inl e
          \<longrightarrow> get_cpu_temp pf = Inr (''---'', GRAY))
   \<and> (\<forall>txt v. IS_LINUX pf \<and> open_thermal pf = Inr (Inr txt) \<and> py_float pf txt = Inr v
            \<and> v \<in> {PosInf, NegInf, NaN}
          \<longrightarrow> get_cpu_temp pf = Inr (''---'', GRAY))
   \<and> (\<forall>s. \<exists>s1 ps. refresh_ip pf s = (s1, ps, Inr ()))
   \<and> (\<forall>s. \<exists>s1 ps. refresh_temp pf s = (s1, ps, Inr ()))
   \<and> (\<forall>env s. platform env = pf \<longrightarrow> (\<exists>s2 ps. render env s = (s2, ps, info_lines env s2)))"
  using get_ip_address_total [of pf] get_cpu_temp_total [of pf]
    get_ip_address_caught [of pf] get_cpu_temp_caught [of pf]
    ip_failures [of pf] cpu_failures [of pf]
    refresh_ip_no_raise [of pf] refresh_temp_no_raise [of pf] render_outcome
  by (intro conjI allI impI) (blast | metis)+

theorem probes_never_raise_witness:
  "get_ip_address_try (demo_platform True) = Inl (StdError ''socket.error'')
   \<and> get_ip_address (demo_platform True) = Inr (''UNKNOWN'', RED)
   \<and> get_cpu_temp_try (demo_platform True) = Inl (StdError ''IOError'')
   \<and> get_cpu_temp (demo_platform True) = Inr (''---'', GRAY)"
proof -
  have h1: "get_ip_address_try (demo_platform True) = Inl (StdError ''socket.error'')"
    by (simp add: get_ip_address_try_def demo_platform_def)
  have h2: "get_cpu_temp_try (demo_platform True) = Inl (StdError ''IOError'')"
    by (simp add: get_cpu_temp_try_def demo_platform_def)
  show ?thesis
    using probes_never_raise [of "demo_platform True"] h1 h2 by blast
qed

subsection \<open>The temperature gradient\<close>

lemma mix_green_red:
  "0 \<le> p \<Longrightarrow> p \<le> 1 \<Longrightarrow> get_color_mix GREEN RED p = (255 * p, 255 * (1 - p), 0)"
  by (simp add: GREEN_def RED_def clamp_def algebra_simps)

lemma text_color_low: "t \<le> NORMAL_TEMP \<Longrightarrow> get_cpu_temp_text_color t = GREEN"
  by (simp add: get_cpu_temp_text_color_def NORMAL_TEMP_def REDLINE_TEMP_def)

lemma text_color_high: "REDLINE_TEMP \<le> t \<Longrightarrow> get_cpu_temp_text_color t = RED"
proof (cases "REDLINE_TEMP < t")
  case True
  then show ?thesis by (simp add: get_cpu_temp_text_color_def)
next
  case False
  assume "REDLINE_TEMP \<le> t"
  with False have "t = 80" by (simp add: REDLINE_TEMP_def)
  then show ?thesis
    by (simp add: get_cpu_temp_text_color_def NORMAL_TEMP_def REDLINE_TEMP_def clamp_def
        GREEN_def RED_def)
qed

lemma text_color_mid:
  assumes "NORMAL_TEMP < t" and "t < REDLINE_TEMP"
  shows "clamp 0 (t - NORMAL_TEMP) (REDLINE_TEMP - NORMAL_TEMP) / (REDLINE_TEMP - NORMAL_TEMP)
         = (t - 50) / (80 - 50)"
    and "0 < (t - 50) / (80 - 50)" and "(t - 50) / (80 - 50) < 1"
    and "get_cpu_temp_text_color t = get_color_mix GREEN RED ((t - 50) / (80 - 50))"
    and "get_cpu_temp_text_color t
         = (255 * ((t - 50) / (80 - 50)), 255 * (1 - (t - 50) / (80 - 50)), 0)"
proof -
  show 1: "clamp 0 (t - NORMAL_TEMP) (REDLINE_TEMP - NORMAL_TEMP) / (REDLINE_TEMP - NORMAL_TEMP)
         = (t - 50) / (80 - 50)"
    using assms by (simp add: NORMAL_TEMP_def REDLINE_TEMP_def clamp_def)
  show 2: "0 < (t - 50) / (80 - 50)" and 3: "(t - 50) / (80 - 50) < 1"
    using assms by (simp_all add: NORMAL_TEMP_def REDLINE_TEMP_def)
  have "get_cpu_temp_text_color t = get_color_mix GREEN RED
      (clamp 0 (t - NORMAL_TEMP) (REDLINE_TEMP - NORMAL_TEMP) / (REDLINE_TEMP - NORMAL_TEMP))"
    using assms by (simp add: get_cpu_temp_text_color_def Let_def)
  then show 4: "get_cpu_temp_text_color t = get_color_mix GREEN RED ((t - 50) / (80 - 50))"
    by (simp only: 1)
  show "get_cpu_temp_text_color t
         = (255 * ((t - 50) / (80 - 50)), 255 * (1 - (t - 50) / (80 - 50)), 0)"
    using 2 3 by (simp only: 4 mix_green_red less_imp_le)
qed

text \<open>
  Claim C2. With the bounds 50 and 80, \<^verbatim>\<open>get_cpu_temp_text_color\<close> gives green for every
  temperature up to 50 and red for every temperature from 80 on. Strictly between the
  bounds the clamped proportion is (t - 50) / (80 - 50), which lies strictly between 0 and
  1, and the colour is the mix of green and red at that proportion: its red channel is
  strictly between those of green and red, its green channel strictly between those of
  red and green, and its blue channel is the one both share. At 65 the proportion is one
  half and the colour is the midpoint of green and red.
\<close>

theorem cpu_temp_gradient:
  "NORMAL_TEMP = 50 \<and> REDLINE_TEMP = 80
   \<and> (t \<le> NORMAL_TEMP \<longrightarrow> get_cpu_temp_text_color t = GREEN)
   \<and> (REDLINE_TEMP \<le> t \<longrightarrow> get_cpu_temp_text_color t = RED)
   \<and> (NORMAL_TEMP < t \<and> t < REDLINE_TEMP \<longrightarrow>
         clamp 0 (t - NORMAL_TEMP) (REDLINE_TEMP - NORMAL_TEMP) / (REDLINE_TEMP - NORMAL_TEMP)
           = (t - 50) / (80 - 50)
         \<and> 0 < (t - 50) / (80 - 50) \<and> (t - 50) / (80 - 50) < 1
         \<and> get_cpu_temp_text_color t = get_color_mix GREEN RED ((t - 50) / (80 - 50))
         \<and> get_cpu_temp_text_color t
             = (255 * ((t - 50) / (80 - 50)), 255 * (1 - (t - 50) / (80 - 50)), 0)
         \<and> fst GREEN < fst (get_cpu_temp_text_color t)
         \<and> fst (get_cpu_temp_text_color t) < fst RED
         \<and> fst (snd RED) < fst (snd (get_cpu_temp_text_color t))
         \<and> fst (snd (get_cpu_temp_text_color t)) < fst (snd GREEN)
         \<and> snd (snd (get_cpu_temp_text_color t)) = snd (snd GREEN)
         \<and> snd (snd (get_cpu_temp_text_color t)) = snd (snd RED))
   \<and> get_cpu_temp_text_color 65 = get_color_mix GREEN RED (1 / 2)
   \<and> get_cpu_temp_text_color 65 = (255 / 2, 255 / 2, 0)"
proof -
  have mid: "clamp 0 (t - NORMAL_TEMP) (REDLINE_TEMP - NORMAL_TEMP) / (REDLINE_TEMP - NORMAL_TEMP)
           = (t - 50) / (80 - 50)
         \<and> 0 < (t - 50) / (80 - 50) \<and> (t - 50) / (80 - 50) < 1
         \<and> get_cpu_temp_text_color t = get_color_mix GREEN RED ((t - 50) / (80 - 50))
         \<and> get_cpu_temp_text_color t
             = (255 * ((t - 50) / (80 - 50)), 255 * (1 - (t - 50) / (80 - 50)), 0)
         \<and> fst GREEN < fst (get_cpu_temp_text_color t)
         \<and> fst (get_cpu_temp_text_color t) < fst RED
         \<and> fst (snd RED) < fst (snd (get_cpu_temp_text_color t))
         \<and> fst (snd (get_cpu_temp_text_color t)) < fst (snd GREEN)
         \<and> snd (snd (get_cpu_temp_text_color t)) = snd (snd GREEN)
         \<and> snd (snd (get_cpu_temp_text_color t)) = snd (snd RED)"
    if lo: "NORMAL_TEMP < t" and hi: "t < REDLINE_TEMP"
  proof -
    note m = text_color_mid [OF lo hi]
    have ch: "fst GREEN < fst (get_cpu_temp_text_color t)"
      "fst (get_cpu_temp_text_color t) < fst RED"
      "fst (snd RED) < fst (snd (get_cpu_temp_text_color t))"
      "fst (snd (get_cpu_temp_text_color t)) < fst (snd GREEN)"
      "snd (snd (get_cpu_temp_text_color t)) = snd (snd GREEN)"
      "snd (snd (get_cpu_temp_text_color t)) = snd (snd RED)"
      using m(2) m(3) by (simp_all add: m(5) GREEN_def RED_def)
    show ?thesis
      by (intro conjI) (rule m ch)+
  qed
  have n: "NORMAL_TEMP = 50" and r: "REDLINE_TEMP = 80"
    by (simp_all add: NORMAL_TEMP_def REDLINE_TEMP_def)
  have e65: "get_cpu_temp_text_color 65 = get_color_mix GREEN RED (1 / 2)"
    using text_color_mid(4) [of 65]
    by (simp add: NORMAL_TEMP_def REDLINE_TEMP_def)
  have v65: "get_cpu_temp_text_color 65 = (255 / 2, 255 / 2, 0)"
    using mix_green_red [of "1 / 2"] by (simp add: e65)
  show ?thesis
    using text_color_low [of t] text_color_high [of t] mid
    by (intro conjI impI n r e65 v65) blast+
qed

theorem cpu_temp_gradient_witness:
  "(40::real) \<le> NORMAL_TEMP \<and> get_cpu_temp_text_color 40 = GREEN
   \<and> REDLINE_TEMP \<le> (80::real) \<and> get_cpu_temp_text_color 80 = RED
   \<and> NORMAL_TEMP < (60::real) \<and> (60::real) < REDLINE_TEMP
   \<and> get_cpu_temp_text_color 60 = (85, 170, 0)"
proof -
  have lo: "(40::real) \<le> NORMAL_TEMP" by (simp add: NORMAL_TEMP_def)
  have hi: "REDLINE_TEMP \<le> (80::real)" by (simp add: REDLINE_TEMP_def)
  have mid: "NORMAL_TEMP < (60::real) \<and> (60::real) < REDLINE_TEMP"
    by (simp add: NORMAL_TEMP_def REDLINE_TEMP_def)
  note g60 = cpu_temp_gradient [of 60, THEN conjunct2, THEN conjunct2, THEN conjunct2,
      THEN conjunct2, THEN conjunct1, THEN mp, OF mid]
  have "get_cpu_temp_text_color 60
      = (255 * ((60 - 50) / (80 - 50)), 255 * (1 - (60 - 50) / (80 - 50)), 0)"
    using g60 by (elim conjE)
  then have c60: "get_cpu_temp_text_color 60 = (85, 170, 0)" by simp
  note c40 = cpu_temp_gradient [of 40, THEN conjunct2, THEN conjunct2, THEN conjunct1,
      THEN mp, OF lo]
  note c80 = cpu_temp_gradient [of 80, THEN conjunct2, THEN conjunct2, THEN conjunct2,
      THEN conjunct1, THEN mp, OF hi]
  show ?thesis
    by (intro conjI) (rule lo hi c40 c60 c80 mid [THEN conjunct1] mid [THEN conjunct2])+
qed


subsection \<open>The two countdowns\<close>

lemma refresh_ip_quiet:
  "1 < update_ip_timer s \<Longrightarrow>
     refresh_ip pf s = (s\<lparr>update_ip_timer := update_ip_timer s - 1\<rparr>, [], Inr ())"
  by (simp add: refresh_ip_def Let_def)

lemma refresh_ip_fires:
  "update_ip_timer s \<le> 1 \<Longrightarrow>
     \<exists>v. get_ip_address pf = Inr v
        \<and> refresh_ip pf s
            = (s\<lparr>update_ip_timer := 120, ip_address := v\<rparr>, [IpProbe], Inr ())"
  using get_ip_address_total [of pf]
  by (auto simp: refresh_ip_def Let_def)

lemma refresh_temp_quiet:
  "1 < update_temp_timer s \<Longrightarrow>
     refresh_temp pf s = (s\<lparr>update_temp_timer := update_temp_timer s - 1\<rparr>, [], Inr ())"
  by (simp add: refresh_temp_def Let_def)

lemma refresh_temp_fires:
  "update_temp_timer s \<le> 1 \<Longrightarrow>
     \<exists>v. get_cpu_temp pf = Inr v
        \<and> refresh_temp pf s
            = (s\<lparr>update_temp_timer := 60, cpu_temp := Some v\<rparr>, [TempProbe], Inr ())"
  using get_cpu_temp_total [of pf]
  by (auto simp: refresh_temp_def Let_def)

lemma refresh_ip_keeps_temp_timer:
  "refresh_ip pf s = (s1, ps, r) \<Longrightarrow> update_temp_timer s1 = update_temp_timer s"
  by (auto simp: refresh_ip_def Let_def split: if_splits sum.splits)

lemma refresh_temp_keeps_ip_timer:
  "refresh_temp pf s = (s1, ps, r) \<Longrightarrow> update_ip_timer s1 = update_ip_timer s"
  by (auto simp: refresh_temp_def Let_def split: if_splits sum.splits)

lemma refresh_temp_probes:
  "refresh_temp pf s = (s1, ps, r) \<Longrightarrow> count_list ps IpProbe = 0"
  by (auto simp: refresh_temp_def Let_def split: if_splits sum.splits)

lemma refresh_ip_probes:
  "refresh_ip pf s = (s1, ps, r) \<Longrightarrow> count_list ps TempProbe = 0"
  by (auto simp: refresh_ip_def Let_def split: if_splits sum.splits)

lemma render_steps:
  "\<exists>s1 p1 s2 p2. refresh_ip (platform env) s = (s1, p1, Inr ())
      \<and> refresh_temp (platform env) s1 = (s2, p2, Inr ())
      \<and> render env s = (s2, p1 @ p2, info_lines env s2)"
proof -
  obtain s1 p1 where 1: "refresh_ip (platform env) s = (s1, p1, Inr ())"
    using refresh_ip_no_raise by blast
  obtain s2 p2 where 2: "refresh_temp (platform env) s1 = (s2, p2, Inr ())"
    using refresh_temp_no_raise by blast
  show ?thesis using 1 2 by (simp add: render_def)
qed

lemma render_ip_quiet:
  assumes "1 < update_ip_timer s"
  shows "count_list (fst (snd (render env s))) IpProbe = 0"
    and "update_ip_timer (fst (render env s)) = update_ip_timer s - 1"
proof -
  obtain s1 p1 s2 p2 where
    1: "refresh_ip (platform env) s = (s1, p1, Inr ())" and
    2: "refresh_temp (platform env) s1 = (s2, p2, Inr ())" and
    3: "render env s = (s2, p1 @ p2, info_lines env s2)"
    using render_steps by blast
  from 1 assms have a: "p1 = []" "update_ip_timer s1 = update_ip_timer s - 1"
    by (auto simp: refresh_ip_quiet)
  show "count_list (fst (snd (render env s))) IpProbe = 0"
    using 3 a refresh_temp_probes [OF 2] by simp
  show "update_ip_timer (fst (render env s)) = update_ip_timer s - 1"
    using 3 a refresh_temp_keeps_ip_timer [OF 2] by simp
qed

lemma render_ip_fires:
  assumes "update_ip_timer s \<le> 1"
  shows "count_list (fst (snd (render env s))) IpProbe = 1"
    and "update_ip_timer (fst (render env s)) = 120"
proof -
  obtain s1 p1 s2 p2 where
    1: "refresh_ip (platform env) s = (s1, p1, Inr ())" and
    2: "refresh_temp (platform env) s1 = (s2, p2, Inr ())" and
    3: "render env s = (s2, p1 @ p2, info_lines env s2)"
    using render_steps by blast
  from refresh_ip_fires [OF assms, of "platform env"] 1
  have a: "p1 = [IpProbe]" "update_ip_timer s1 = 120"
    by auto
  show "count_list (fst (snd (render env s))) IpProbe = 1"
    using 3 a refresh_temp_probes [OF 2] by simp
  show "update_ip_timer (fst (render env s)) = 120"
    using 3 a refresh_temp_keeps_ip_timer [OF 2] by simp
qed

lemma render_temp_quiet:
  assumes "1 < update_temp_timer s"
  shows "count_list (fst (snd (render env s))) TempProbe = 0"
    and "update_temp_timer (fst (render env s)) = update_temp_timer s - 1"
proof -
  obtain s1 p1 s2 p2 where
    1: "refresh_ip (platform env) s = (s1, p1, Inr ())" and
    2: "refresh_temp (platform env) s1 = (s2, p2, Inr ())" and
    3: "render env s = (s2, p1 @ p2, info_lines env s2)"
    using render_steps by blast
  have t1: "1 < update_temp_timer s1"
    using assms refresh_ip_keeps_temp_timer [OF 1] by simp
  from 2 t1 have a: "p2 = []" "update_temp_timer s2 = update_temp_timer s1 - 1"
    by (auto simp: refresh_temp_quiet)
  show "count_list (fst (snd (render env s))) TempProbe = 0"
    using 3 a refresh_ip_probes [OF 1] by simp
  show "update_temp_timer (fst (render env s)) = update_temp_timer s - 1"
    using 3 a refresh_ip_keeps_temp_timer [OF 1] by simp
qed

lemma render_temp_fires:
  assumes "update_temp_timer s \<le> 1"
  shows "count_list (fst (snd (render env s))) TempProbe = 1"
    and "update_temp_timer (fst (render env s)) = 60"
proof -
  obtain s1 p1 s2 p2 where
    1: "refresh_ip (platform env) s = (s1, p1, Inr ())" and
    2: "refresh_temp (platform env) s1 = (s2, p2, Inr ())" and
    3: "render env s = (s2, p1 @ p2, info_lines env s2)"
    using render_steps by blast
  have t1: "update_temp_timer s1 \<le> 1"
    using assms refresh_ip_keeps_temp_timer [OF 1] by simp
  from refresh_temp_fires [OF t1, of "platform env"] 2
  have a: "p2 = [TempProbe]" "update_temp_timer s2 = 60"
    by auto
  show "count_list (fst (snd (render env s))) TempProbe = 1"
    using 3 a refresh_ip_probes [OF 1] by simp
  show "update_temp_timer (fst (render env s)) = 60"
    using 3 a by simp
qed

lemma run_render_Cons:
  "run_render (env # envs) s =
     (fst (run_render envs (fst (render env s))),
      fst (snd (render env s)) # snd (run_render envs (fst (render env s))))"
  by (simp split: prod.splits)

lemma run_render_append:
  "run_render (xs @ ys) s =
     (fst (run_render ys (fst (run_render xs s))),
      snd (run_render xs s) @ snd (run_render ys (fst (run_render xs s))))"
  by (induction xs arbitrary: s) (simp_all add: run_render_Cons del: run_render.simps(2))

lemma run_ip_quiet:
  "int (length envs) < update_ip_timer s \<Longrightarrow>
     map (\<lambda>ps. count_list ps IpProbe) (snd (run_render envs s)) = replicate (length envs) 0
     \<and> update_ip_timer (fst (run_render envs s)) = update_ip_timer s - int (length envs)"
proof (induction envs arbitrary: s)
  case Nil
  then show ?case by simp
next
  case (Cons env envs)
  have big: "1 < update_ip_timer s" using Cons.prems by simp
  note q = render_ip_quiet [OF big, of env]
  have "int (length envs) < update_ip_timer (fst (render env s))"
    using Cons.prems q(2) by simp
  from Cons.IH [OF this] show ?case
    using q by (simp add: run_render_Cons del: run_render.simps(2))
qed

lemma run_temp_quiet:
  "int (length envs) < update_temp_timer s \<Longrightarrow>
     map (\<lambda>ps. count_list ps TempProbe) (snd (run_render envs s)) = replicate (length envs) 0
     \<and> update_temp_timer (fst (run_render envs s)) = update_temp_timer s - int (length envs)"
proof (induction envs arbitrary: s)
  case Nil
  then show ?case by simp
next
  case (Cons env envs)
  have big: "1 < update_temp_timer s" using Cons.prems by simp
  note q = render_temp_quiet [OF big, of env]
  have "int (length envs) < update_temp_timer (fst (render env s))"
    using Cons.prems q(2) by simp
  from Cons.IH [OF this] show ?case
    using q by (simp add: run_render_Cons del: run_render.simps(2))
qed

lemma run_ip_period:
  assumes "0 < update_ip_timer s" and "int (length envs) = update_ip_timer s"
  shows "map (\<lambda>ps. count_list ps IpProbe) (snd (run_render envs s))
           = replicate (length envs - 1) 0 @ [1]"
    and "update_ip_timer (fst (run_render envs s)) = 120"
proof -
  from assms have ne: "envs \<noteq> []" by auto
  define xs where "xs = butlast envs"
  define e where "e = last envs"
  have split: "envs = xs @ [e]" using ne by (simp add: xs_def e_def)
  have len: "int (length xs) < update_ip_timer s"
    using assms(2) split by simp
  note q = run_ip_quiet [OF len]
  define s1 where "s1 = fst (run_render xs s)"
  have t1: "update_ip_timer s1 \<le> 1"
    using q assms(2) split by (simp add: s1_def)
  note f = render_ip_fires [OF t1, of e]
  have "map (\<lambda>ps. count_list ps IpProbe) (snd (run_render (xs @ [e]) s))
           = replicate (length xs) 0 @ [1]"
    using q f
    by (simp add: run_render_append run_render_Cons s1_def del: run_render.simps(2))
  then show "map (\<lambda>ps. count_list ps IpProbe) (snd (run_render envs s))
           = replicate (length envs - 1) 0 @ [1]"
    by (simp add: split)
  show "update_ip_timer (fst (run_render envs s)) = 120"
    using f by (simp add: split run_render_append run_render_Cons s1_def del: run_render.simps(2))
qed

lemma run_temp_period:
  assumes "0 < update_temp_timer s" and "int (length envs) = update_temp_timer s"
  shows "map (\<lambda>ps. count_list ps TempProbe) (snd (run_render envs s))
           = replicate (length envs - 1) 0 @ [1]"
    and "update_temp_timer (fst (run_render envs s)) = 60"
proof -
  from assms have ne: "envs \<noteq> []" by auto
  define xs where "xs = butlast envs"
  define e where "e = last envs"
  have split: "envs = xs @ [e]" using ne by (simp add: xs_def e_def)
  have len: "int (length xs) < update_temp_timer s"
    using assms(2) split by simp
  note q = run_temp_quiet [OF len]
  define s1 where "s1 = fst (run_render xs s)"
  have t1: "update_temp_timer s1 \<le> 1"
    using q assms(2) split by (simp add: s1_def)
  note f = render_temp_fires [OF t1, of e]
  have "map (\<lambda>ps. count_list ps TempProbe) (snd (run_render (xs @ [e]) s))
           = replicate (length xs) 0 @ [1]"
    using q f
    by (simp add: run_render_append run_render_Cons s1_def del: run_render.simps(2))
  then show "map (\<lambda>ps. count_list ps TempProbe) (snd (run_render envs s))
           = replicate (length envs - 1) 0 @ [1]"
    by (simp add: split)
  show "update_temp_timer (fst (run_render envs s)) = 60"
    using f by (simp add: split run_render_append run_render_Cons s1_def del: run_render.simps(2))
qed

text \<open>
  Claim C3. Start from a countdown that was just reset to its period: 120 for the
  address, 60 for the temperature. Any run of fewer calls of \<^verbatim>\<open>render\<close> than the
  period invokes the probe in none of them. In a run of exactly as many calls as the
  period, the probe is invoked in none of the calls before the last and exactly once in
  the last, which leaves the countdown reset to the period.
\<close>

theorem timers_fire_on_period:
  "(update_ip_timer s = 120 \<longrightarrow>
      (length envs < 120 \<longrightarrow>
         map (\<lambda>ps. count_list ps IpProbe) (snd (run_render envs s)) = replicate (length envs) 0)
    \<and> (length envs = 120 \<longrightarrow>
         map (\<lambda>ps. count_list ps IpProbe) (snd (run_render envs s)) = replicate 119 0 @ [1]
         \<and> update_ip_timer (fst (run_render envs s)) = 120))
   \<and> (update_temp_timer s = 60 \<longrightarrow>
      (length envs < 60 \<longrightarrow>
         map (\<lambda>ps. count_list ps TempProbe) (snd (run_render envs s)) = replicate (length envs) 0)
    \<and> (length envs = 60 \<longrightarrow>
         map (\<lambda>ps. count_list ps TempProbe) (snd (run_render envs s)) = replicate 59 0 @ [1]
         \<and> update_temp_timer (fst (run_render envs s)) = 60))"
proof (intro conjI impI)
  assume "update_ip_timer s = 120" "length envs < 120"
  then show "map (\<lambda>ps. count_list ps IpProbe) (snd (run_render envs s)) = replicate (length envs) 0"
    using run_ip_quiet [of envs s] by simp
next
  assume a: "update_ip_timer s = 120" "length envs = 120"
  then have h: "0 < update_ip_timer s" "int (length envs) = update_ip_timer s" by simp_all
  have "length envs - 1 = 119" using a by simp
  with run_ip_period(1) [OF h]
  show "map (\<lambda>ps. count_list ps IpProbe) (snd (run_render envs s)) = replicate 119 0 @ [1]"
    by (simp only:)
  show "update_ip_timer (fst (run_render envs s)) = 120"
    using run_ip_period(2) [OF h] .
next
  assume "update_temp_timer s = 60" "length envs < 60"
  then show "map (\<lambda>ps. count_list ps TempProbe) (snd (run_render envs s)) = replicate (length envs) 0"
    using run_temp_quiet [of envs s] by simp
next
  assume a: "update_temp_timer s = 60" "length envs = 60"
  then have h: "0 < update_temp_timer s" "int (length envs) = update_temp_timer s" by simp_all
  have "length envs - 1 = 59" using a by simp
  with run_temp_period(1) [OF h]
  show "map (\<lambda>ps. count_list ps TempProbe) (snd (run_render envs s)) = replicate 59 0 @ [1]"
    by (simp only:)
  show "update_temp_timer (fst (run_render envs s)) = 60"
    using run_temp_period(2) [OF h] .
qed

theorem timers_fire_on_period_witness:
  "update_ip_timer demo_state = 120 \<and> length (replicate 120 demo_env) = 120
   \<and> map (\<lambda>ps. count_list ps IpProbe) (snd (run_render (replicate 120 demo_env) demo_state))
       = replicate 119 0 @ [1]
   \<and> update_ip_timer (fst (run_render (replicate 120 demo_env) demo_state)) = 120
   \<and> update_temp_timer demo_state = 60 \<and> length (replicate 60 demo_env) = 60
   \<and> map (\<lambda>ps. count_list ps TempProbe) (snd (run_render (replicate 60 demo_env) demo_state))
       = replicate 59 0 @ [1]
   \<and> update_temp_timer (fst (run_render (replicate 60 demo_env) demo_state)) = 60"
proof -
  have h1: "update_ip_timer demo_state = 120" by (simp add: demo_state_def)
  have h2: "length (replicate 120 demo_env) = 120" by (simp only: length_replicate)
  have k1: "update_temp_timer demo_state = 60" by (simp add: demo_state_def)
  have k2: "length (replicate 60 demo_env) = 60" by (simp only: length_replicate)
  note a = timers_fire_on_period [of demo_state "replicate 120 demo_env", THEN conjunct1,
      THEN mp, OF h1, THEN conjunct2, THEN mp, OF h2]
  note b = timers_fire_on_period [of demo_state "replicate 60 demo_env", THEN conjunct2,
      THEN mp, OF k1, THEN conjunct2, THEN mp, OF k2]
  show ?thesis
    by (intro conjI)
      (rule h1 h2 k1 k2 a [THEN conjunct1] a [THEN conjunct2] b [THEN conjunct1]
        b [THEN conjunct2])+
qed

subsection \<open>The CPU temperature off Linux\<close>

lemma info_lines_cpu_row:
  "info_lines env s = Inr rows \<Longrightarrow> cpu_temp s = Some v \<Longrightarrow>
     (''HUD CPU     : '', v) \<in> set rows
     \<and> (\<forall>w. (''HUD CPU     : '', w) \<in> set rows \<longrightarrow> w = v)"
  by (auto simp: info_lines_def ip_rows_def split: sum.splits)

text \<open>
  Claim C9. When \<^verbatim>\<open>local_debug.IS_LINUX\<close> is false, the \<^verbatim>\<open>try\<close> of \<^verbatim>\<open>get_cpu_temp\<close>
  ends without an exception and without returning (nothing is opened or read), and the
  function returns the placeholder \<^verbatim>\<open>('---', GRAY)\<close>. A call of \<^verbatim>\<open>render\<close> on an
  object whose cached temperature is still \<^verbatim>\<open>None\<close> with the countdown due, or is the
  placeholder already, leaves the placeholder in the cache, and the one
  \<^verbatim>\<open>HUD CPU\<close> row of the frame shows it.
\<close>

theorem cpu_temp_off_linux:
  assumes "\<not> IS_LINUX pf"
  shows "get_cpu_temp_try pf = Inr None \<and> get_cpu_temp pf = Inr (''---'', GRAY)
       \<and> (\<forall>env s. platform env = pf
              \<and> (cpu_temp s = None \<and> update_temp_timer s \<le> 1
                   \<or> cpu_temp s = Some (''---'', GRAY))
            \<longrightarrow> cpu_temp (fst (render env s)) = Some (''---'', GRAY)
              \<and> (\<forall>rows. snd (snd (render env s)) = Inr rows
                    \<longrightarrow> (''HUD CPU     : '', (''---'', GRAY)) \<in> set rows
                      \<and> (\<forall>w. (''HUD CPU     : '', w) \<in> set rows
                             \<longrightarrow> w = (''---'', GRAY))))"
proof -
  have probe: "get_cpu_temp pf = Inr (''---'', GRAY)" and body: "get_cpu_temp_try pf = Inr None"
    using assms by (simp_all add: get_cpu_temp_try_def get_cpu_temp_def)
  have frame: "cpu_temp (fst (render env s)) = Some (''---'', GRAY)
              \<and> (\<forall>rows. snd (snd (render env s)) = Inr rows
                    \<longrightarrow> (''HUD CPU     : '', (''---'', GRAY)) \<in> set rows
                      \<and> (\<forall>w. (''HUD CPU     : '', w) \<in> set rows
                             \<longrightarrow> w = (''---'', GRAY)))"
    if pf: "platform env = pf"
      and inv: "cpu_temp s = None \<and> update_temp_timer s \<le> 1
                   \<or> cpu_temp s = Some (''---'', GRAY)"
    for env s
  proof -
    obtain s1 p1 s2 p2 where
      1: "refresh_ip (platform env) s = (s1, p1, Inr ())" and
      2: "refresh_temp (platform env) s1 = (s2, p2, Inr ())" and
      3: "render env s = (s2, p1 @ p2, info_lines env s2)"
      using render_steps by blast
    have s1: "cpu_temp s1 = cpu_temp s" "update_temp_timer s1 = update_temp_timer s"
      using 1 by (auto simp: refresh_ip_def Let_def split: if_splits sum.splits)
    have s2: "cpu_temp s2 = Some (''---'', GRAY)"
      using 2 inv s1 probe pf
      by (auto simp: refresh_temp_def Let_def split: if_splits)
    have r: "fst (render env s) = s2" "snd (snd (render env s)) = info_lines env s2"
      using 3 by simp_all
    have "\<forall>rows. info_lines env s2 = Inr rows
                    \<longrightarrow> (''HUD CPU     : '', (''---'', GRAY)) \<in> set rows
                      \<and> (\<forall>w. (''HUD CPU     : '', w) \<in> set rows
                             \<longrightarrow> w = (''---'', GRAY))"
      using info_lines_cpu_row [OF _ s2] by blast
    with s2 show ?thesis by (simp only: r)
  qed
  show ?thesis using probe body frame by blast
qed

theorem cpu_temp_off_linux_witness:
  "\<not> IS_LINUX (demo_platform False)
   \<and> get_cpu_temp (demo_platform False) = Inr (''---'', GRAY)
   \<and> cpu_temp (fst (render \<lparr>platform = demo_platform False, aithre = demo_aithre None,
                               config = demo_config False\<rparr>
                 \<lparr>update_ip_timer = 0, update_temp_timer = 0, ip_address = (''UNKNOWN'', RED),
                   cpu_temp = None, framebuffer_size = (800, 480)\<rparr>))
       = Some (''---'', GRAY)"
proof -
  have h: "\<not> IS_LINUX (demo_platform False)" by (simp add: demo_platform_def)
  let ?env = "\<lparr>platform = demo_platform False, aithre = demo_aithre None,
               config = demo_config False\<rparr>"
  let ?s = "\<lparr>update_ip_timer = 0, update_temp_timer = 0, ip_address = (''UNKNOWN'', RED),
                   cpu_temp = None, framebuffer_size = (800, 480)\<rparr>"
  have k: "platform ?env = demo_platform False
      \<and> (cpu_temp ?s = None \<and> update_temp_timer ?s \<le> 1 \<or> cpu_temp ?s = Some (''---'', GRAY))"
    by simp
  note t = cpu_temp_off_linux [OF h]
  note r = t [THEN conjunct2, THEN conjunct2, THEN spec, THEN spec, THEN mp, OF k,
      THEN conjunct1]
  from h t [THEN conjunct2, THEN conjunct1] r show ?thesis by (intro conjI)
qed

subsection \<open>Construction and the first frame\<close>

lemma pi_ip: "get_ip_address pi_platform = Inr (''192.168.1.10 10.0.0.7'', GREEN)"
  by (simp add: get_ip_address_def get_ip_address_try_def pi_platform_def py_strip_def
      is_space_def)

lemma pi_cpu: "get_cpu_temp pi_platform = Inr (''65C'', (255 / 2, 255 / 2, 0))"
proof -
  have "get_cpu_temp_text_color 65 = (255 / 2, 255 / 2, 0)"
    by (simp add: get_cpu_temp_text_color_def NORMAL_TEMP_def REDLINE_TEMP_def clamp_def
        GREEN_def RED_def)
  moreover have "str_int 65 = ''65''" by (simp add: str_int_def str_nat.simps)
  ultimately show ?thesis
    by (simp add: get_cpu_temp_def get_cpu_temp_try_def pi_platform_def)
qed

text \<open>
  Claim C6 as stated fails: after \<^verbatim>\<open>__init__\<close> on a Raspberry Pi whose thermal file
  reads 65000, the cached CPU temperature is \<^verbatim>\<open>None\<close>, although the probe would return
  a sample.
\<close>

theorem init_leaves_cpu_temp_empty:
  "SystemInfo_init pi_platform (800, 480)
     = Inr \<lparr>update_ip_timer = 0, update_temp_timer = 0,
            ip_address = (''192.168.1.10 10.0.0.7'', GREEN),
            cpu_temp = None, framebuffer_size = (800, 480)\<rparr>
   \<and> get_cpu_temp pi_platform = Inr (''65C'', (255 / 2, 255 / 2, 0))"
  by (simp add: SystemInfo_init_def pi_ip pi_cpu)

text \<open>
  Claim C6, amended. \<^verbatim>\<open>__init__\<close> always succeeds; it stores the sample that
  \<^verbatim>\<open>get_ip_address\<close> returns during construction, leaves the CPU temperature at
  \<^verbatim>\<open>None\<close> and sets both countdowns to 0. The first call of \<^verbatim>\<open>render\<close> therefore
  invokes both probes before it builds any row and stores their samples, so the rows of
  the first frame carry a sample of each metric.
\<close>

theorem first_frame_has_samples:
  "\<exists>ip. get_ip_address pf = Inr ip
     \<and> SystemInfo_init pf fb
         = Inr \<lparr>update_ip_timer = 0, update_temp_timer = 0, ip_address = ip,
                cpu_temp = None, framebuffer_size = fb\<rparr>
     \<and> (\<forall>env. \<exists>ip1 cpu.
           get_ip_address (platform env) = Inr ip1 \<and> get_cpu_temp (platform env) = Inr cpu
           \<and> render env \<lparr>update_ip_timer = 0, update_temp_timer = 0, ip_address = ip,
                          cpu_temp = None, framebuffer_size = fb\<rparr>
               = (\<lparr>update_ip_timer = 120, update_temp_timer = 60, ip_address = ip1,
                   cpu_temp = Some cpu, framebuffer_size = fb\<rparr>,
                  [IpProbe, TempProbe],
                  info_lines env \<lparr>update_ip_timer = 120, update_temp_timer = 60,
                                  ip_address = ip1, cpu_temp = Some cpu,
                                  framebuffer_size = fb\<rparr>)
           \<and> (\<forall>rows. info_lines env \<lparr>update_ip_timer = 120, update_temp_timer = 60,
                                  ip_address = ip1, cpu_temp = Some cpu,
                                  framebuffer_size = fb\<rparr> = Inr rows
                 \<longrightarrow> (''HUD CPU     : '', cpu) \<in> set rows \<and> set (ip_rows ip1) \<subseteq> set rows))"
proof -
  obtain ip where ip: "get_ip_address pf = Inr ip"
    using get_ip_address_total by blast
  have init: "SystemInfo_init pf fb
         = Inr \<lparr>update_ip_timer = 0, update_temp_timer = 0, ip_address = ip,
                cpu_temp = None, framebuffer_size = fb\<rparr>"
    by (simp add: SystemInfo_init_def ip)
  have frame: "\<exists>ip1 cpu.
           get_ip_address (platform env) = Inr ip1 \<and> get_cpu_temp (platform env) = Inr cpu
           \<and> render env \<lparr>update_ip_timer = 0, update_temp_timer = 0, ip_address = ip,
                          cpu_temp = None, framebuffer_size = fb\<rparr>
               = (\<lparr>update_ip_timer = 120, update_temp_timer = 60, ip_address = ip1,
                   cpu_temp = Some cpu, framebuffer_size = fb\<rparr>,
                  [IpProbe, TempProbe],
                  info_lines env \<lparr>update_ip_timer = 120, update_temp_timer = 60,
                                  ip_address = ip1, cpu_temp = Some cpu,
                                  framebuffer_size = fb\<rparr>)
           \<and> (\<forall>rows. info_lines env \<lparr>update_ip_timer = 120, update_temp_timer = 60,
                                  ip_address = ip1, cpu_temp = Some cpu,
                                  framebuffer_size = fb\<rparr> = Inr rows
                 \<longrightarrow> (''HUD CPU     : '', cpu) \<in> set rows \<and> set (ip_rows ip1) \<subseteq> set rows)"
    for env
  proof -
    obtain ip1 where ip1: "get_ip_address (platform env) = Inr ip1"
      using get_ip_address_total by blast
    obtain cpu where cpu: "get_cpu_temp (platform env) = Inr cpu"
      using get_cpu_temp_total by blast
    have r: "render env \<lparr>update_ip_timer = 0, update_temp_timer = 0, ip_address = ip,
                          cpu_temp = None, framebuffer_size = fb\<rparr>
               = (\<lparr>update_ip_timer = 120, update_temp_timer = 60, ip_address = ip1,
                   cpu_temp = Some cpu, framebuffer_size = fb\<rparr>,
                  [IpProbe, TempProbe],
                  info_lines env \<lparr>update_ip_timer = 120, update_temp_timer = 60,
                                  ip_address = ip1, cpu_temp = Some cpu,
                                  framebuffer_size = fb\<rparr>)"
      by (simp add: render_def refresh_ip_def refresh_temp_def ip1 cpu)
    have rows: "\<forall>rows. info_lines env \<lparr>update_ip_timer = 120, update_temp_timer = 60,
                                  ip_address = ip1, cpu_temp = Some cpu,
                                  framebuffer_size = fb\<rparr> = Inr rows
                 \<longrightarrow> (''HUD CPU     : '', cpu) \<in> set rows \<and> set (ip_rows ip1) \<subseteq> set rows"
      by (auto simp: info_lines_def split: sum.splits)
    show ?thesis using ip1 cpu r rows by blast
  qed
  show ?thesis using ip init frame by blast
qed

lemma demo_info_lines:
  "info_lines demo_env
     \<lparr>update_ip_timer = t1, update_temp_timer = t2,
      ip_address = (''192.168.1.10 10.0.0.7'', GREEN),
      cpu_temp = Some cpu, framebuffer_size = (800, 480)\<rparr>
   = Inr [(''VERSION     : '', (''1.6'', YELLOW)),
          (''DECLINATION : '', (''0.0'', BLUE)),
          (''TRAFFIC     : '', (''192.168.10.1'', BLUE)),
          (''IP          : '', (''192.168.1.10'', GREEN)),
          (''IP          : '', (''10.0.0.7'', GREEN)),
          (''AITHRE      : '', (''DISABLED'', BLUE)),
          (''HUD CPU     : '', cpu),
          (''OWNSHIP     : '', (''True/A1B2C3'', BLUE)),
          (''DISPLAY RES : '', (''800 x 480'', BLUE))]"
proof -
  have a: "str_int 800 = ''800''" "str_int 480 = ''480''"
    by (simp_all add: str_int_def str_nat.simps)
  show ?thesis
    by (simp add: info_lines_def demo_env_def demo_config_def demo_aithre_def
        get_aithre_text_and_color_def ip_rows_def a)
qed

theorem first_frame_has_samples_witness:
  "render demo_env \<lparr>update_ip_timer = 0, update_temp_timer = 0,
                     ip_address = (''192.168.1.10 10.0.0.7'', GREEN),
                     cpu_temp = None, framebuffer_size = (800, 480)\<rparr>
     = (\<lparr>update_ip_timer = 120, update_temp_timer = 60,
          ip_address = (''192.168.1.10 10.0.0.7'', GREEN),
          cpu_temp = Some (''65C'', (255 / 2, 255 / 2, 0)), framebuffer_size = (800, 480)\<rparr>,
        [IpProbe, TempProbe],
        Inr [(''VERSION     : '', (''1.6'', YELLOW)),
          (''DECLINATION : '', (''0.0'', BLUE)),
          (''TRAFFIC     : '', (''192.168.10.1'', BLUE)),
          (''IP          : '', (''192.168.1.10'', GREEN)),
          (''IP          : '', (''10.0.0.7'', GREEN)),
          (''AITHRE      : '', (''DISABLED'', BLUE)),
          (''HUD CPU     : '', (''65C'', (255 / 2, 255 / 2, 0))),
          (''OWNSHIP     : '', (''True/A1B2C3'', BLUE)),
          (''DISPLAY RES : '', (''800 x 480'', BLUE))])
   \<and> (''HUD CPU     : '', (''65C'', (255 / 2, 255 / 2, 0)))
       \<in> set [(''VERSION     : '', (''1.6'', YELLOW)),
          (''DECLINATION : '', (''0.0'', BLUE)),
          (''TRAFFIC     : '', (''192.168.10.1'', BLUE)),
          (''IP          : '', (''192.168.1.10'', GREEN)),
          (''IP          : '', (''10.0.0.7'', GREEN)),
          (''AITHRE      : '', (''DISABLED'', BLUE)),
          (''HUD CPU     : '', (''65C'', (255 / 2, 255 / 2, 0))),
          (''OWNSHIP     : '', (''True/A1B2C3'', BLUE)),
          (''DISPLAY RES : '', (''800 x 480'', BLUE))]"
proof -
  have p: "platform demo_env = pi_platform" by (simp add: demo_env_def)
  from first_frame_has_samples [of pi_platform "(800, 480)"]
  obtain ip where ip: "get_ip_address pi_platform = Inr ip"
    and fr: "\<forall>env. \<exists>ip1 cpu.
           get_ip_address (platform env) = Inr ip1 \<and> get_cpu_temp (platform env) = Inr cpu
           \<and> render env \<lparr>update_ip_timer = 0, update_temp_timer = 0, ip_address = ip,
                          cpu_temp = None, framebuffer_size = (800, 480)\<rparr>
               = (\<lparr>update_ip_timer = 120, update_temp_timer = 60, ip_address = ip1,
                   cpu_temp = Some cpu, framebuffer_size = (800, 480)\<rparr>,
                  [IpProbe, TempProbe],
                  info_lines env \<lparr>update_ip_timer = 120, update_temp_timer = 60,
                                  ip_address = ip1, cpu_temp = Some cpu,
                                  framebuffer_size = (800, 480)\<rparr>)
           \<and> (\<forall>rows. info_lines env \<lparr>update_ip_timer = 120, update_temp_timer = 60,
                                  ip_address = ip1, cpu_temp = Some cpu,
                                  framebuffer_size = (800, 480)\<rparr> = Inr rows
                 \<longrightarrow> (''HUD CPU     : '', cpu) \<in> set rows \<and> set (ip_rows ip1) \<subseteq> set rows)"
    by blast
  from fr obtain ip1 cpu where
    a: "get_ip_address (platform demo_env) = Inr ip1" and
    b: "get_cpu_temp (platform demo_env) = Inr cpu" and
    c: "render demo_env \<lparr>update_ip_timer = 0, update_temp_timer = 0, ip_address = ip,
                          cpu_temp = None, framebuffer_size = (800, 480)\<rparr>
               = (\<lparr>update_ip_timer = 120, update_temp_timer = 60, ip_address = ip1,
                   cpu_temp = Some cpu, framebuffer_size = (800, 480)\<rparr>,
                  [IpProbe, TempProbe],
                  info_lines demo_env \<lparr>update_ip_timer = 120, update_temp_timer = 60,
                                  ip_address = ip1, cpu_temp = Some cpu,
                                  framebuffer_size = (800, 480)\<rparr>)" and
    d: "\<forall>rows. info_lines demo_env \<lparr>update_ip_timer = 120, update_temp_timer = 60,
                                  ip_address = ip1, cpu_temp = Some cpu,
                                  framebuffer_size = (800, 480)\<rparr> = Inr rows
                 \<longrightarrow> (''HUD CPU     : '', cpu) \<in> set rows \<and> set (ip_rows ip1) \<subseteq> set rows"
    by blast
  have e1: "ip = (''192.168.1.10 10.0.0.7'', GREEN)" using ip by (simp add: pi_ip)
  have e2: "ip1 = (''192.168.1.10 10.0.0.7'', GREEN)" using a by (simp add: p pi_ip)
  have e3: "cpu = (''65C'', (255 / 2, 255 / 2, 0))" using b by (simp add: p pi_cpu)
  note rows = demo_info_lines [of 120 60 "(''65C'', (255 / 2, 255 / 2, 0))"]
  from c have c': "render demo_env \<lparr>update_ip_timer = 0, update_temp_timer = 0,
                     ip_address = (''192.168.1.10 10.0.0.7'', GREEN),
                     cpu_temp = None, framebuffer_size = (800, 480)\<rparr>
     = (\<lparr>update_ip_timer = 120, update_temp_timer = 60,
          ip_address = (''192.168.1.10 10.0.0.7'', GREEN),
          cpu_temp = Some (''65C'', (255 / 2, 255 / 2, 0)), framebuffer_size = (800, 480)\<rparr>,
        [IpProbe, TempProbe],
        Inr [(''VERSION     : '', (''1.6'', YELLOW)),
          (''DECLINATION : '', (''0.0'', BLUE)),
          (''TRAFFIC     : '', (''192.168.10.1'', BLUE)),
          (''IP          : '', (''192.168.1.10'', GREEN)),
          (''IP          : '', (''10.0.0.7'', GREEN)),
          (''AITHRE      : '', (''DISABLED'', BLUE)),
          (''HUD CPU     : '', (''65C'', (255 / 2, 255 / 2, 0))),
          (''OWNSHIP     : '', (''True/A1B2C3'', BLUE)),
          (''DISPLAY RES : '', (''800 x 480'', BLUE))])"
    by (simp only: e1 e2 e3 rows)
  from d [THEN spec, THEN mp, unfolded e2 e3, OF rows]
  have m: "(''HUD CPU     : '', (''65C'', (255 / 2, 255 / 2, 0)))
       \<in> set [(''VERSION     : '', (''1.6'', YELLOW)),
          (''DECLINATION : '', (''0.0'', BLUE)),
          (''TRAFFIC     : '', (''192.168.10.1'', BLUE)),
          (''IP          : '', (''192.168.1.10'', GREEN)),
          (''IP          : '', (''10.0.0.7'', GREEN)),
          (''AITHRE      : '', (''DISABLED'', BLUE)),
          (''HUD CPU     : '', (''65C'', (255 / 2, 255 / 2, 0))),
          (''OWNSHIP     : '', (''True/A1B2C3'', BLUE)),
          (''DISPLAY RES : '', (''800 x 480'', BLUE))]"
    by (rule conjunct1)
  from c' m show ?thesis by (rule conjI)
qed

subsection \<open>The address rows\<close>

lemma py_split_not_Nil: "py_split s \<noteq> []"
  by (induction s) (auto split: list.splits)

lemma py_split_word: "CHR '' '' \<notin> set w \<Longrightarrow> py_split w = [w]"
  by (induction w) auto

lemma py_split_append:
  "CHR '' '' \<notin> set w \<Longrightarrow> py_split (w @ CHR '' '' # r) = w # py_split r"
  by (induction w) (auto split: list.splits)

lemma py_split_join:
  "addrs \<noteq> [] \<Longrightarrow> \<forall>w \<in> set addrs. CHR '' '' \<notin> set w \<Longrightarrow> py_split (py_join addrs) = addrs"
  by (induction addrs rule: py_join.induct) (simp_all add: py_split_word py_split_append)

lemma info_lines_shape:
  assumes "info_lines env s = Inr rows"
  shows "\<exists>pre post. rows = pre @ ip_rows (ip_address s) @ post
           \<and> length pre = 3 \<and> length post = 4
           \<and> (\<forall>r \<in> set (pre @ post). fst r \<noteq> ''IP          : '')"
proof -
  from assms obtain a cpu where
    rows: "rows = [(''VERSION     : '', (VERSION (config env), YELLOW)),
                     (''DECLINATION : '', (declination (config env), BLUE)),
                     (''TRAFFIC     : '', (traffic_manager_address (config env), BLUE))]
                    @ ip_rows (ip_address s)
                    @ [(''AITHRE      : '', a),
                       (''HUD CPU     : '', cpu),
                       (''OWNSHIP     : '',
                          (ownship_mode_s (config env) @ ''/'' @ ownship_icao (config env), BLUE)),
                       (''DISPLAY RES : '',
                          (str_int (fst (framebuffer_size s)) @ '' x ''
                             @ str_int (snd (framebuffer_size s)), BLUE))]"
    by (auto simp: info_lines_def split: sum.splits option.splits)
  show ?thesis
    by (rule exI [of _ "[(''VERSION     : '', (VERSION (config env), YELLOW)),
                     (''DECLINATION : '', (declination (config env), BLUE)),
                     (''TRAFFIC     : '', (traffic_manager_address (config env), BLUE))]"],
        rule exI [of _ "[(''AITHRE      : '', a),
                       (''HUD CPU     : '', cpu),
                       (''OWNSHIP     : '',
                          (ownship_mode_s (config env) @ ''/'' @ ownship_icao (config env), BLUE)),
                       (''DISPLAY RES : '',
                          (str_int (fst (framebuffer_size s)) @ '' x ''
                             @ str_int (snd (framebuffer_size s)), BLUE))]"])
      (simp add: rows)
qed

text \<open>
  Claim C7. When the cached address text, at the time \<^verbatim>\<open>render\<close> builds its rows, is
  k addresses (k at least 1, none containing a space) joined by single spaces, the rows
  are three rows, then exactly k rows labelled \<^verbatim>\<open>IP          : \<close>, one per address in
  order and all with the colour of the cached sample, then four rows; no other row has
  that label.
\<close>

theorem one_row_per_address:
  assumes "addrs \<noteq> []" and "\<forall>w \<in> set addrs. CHR '' '' \<notin> set w"
    and "render env s = (s1, ps, Inr rows)"
    and "fst (ip_address s1) = py_join addrs"
  shows "\<exists>pre post.
           rows = pre @ map (\<lambda>addr. (''IP          : '', (addr, snd (ip_address s1)))) addrs @ post
           \<and> length pre = 3 \<and> length post = 4
           \<and> (\<forall>r \<in> set (pre @ post). fst r \<noteq> ''IP          : '')"
proof -
  from render_outcome [of env s] assms(3) have "info_lines env s1 = Inr rows"
    by auto
  from info_lines_shape [OF this] obtain pre post where
    *: "rows = pre @ ip_rows (ip_address s1) @ post" "length pre = 3" "length post = 4"
       "\<forall>r \<in> set (pre @ post). fst r \<noteq> ''IP          : ''"
    by blast
  have "ip_rows (ip_address s1)
      = map (\<lambda>addr. (''IP          : '', (addr, snd (ip_address s1)))) addrs"
    using py_split_join [OF assms(1,2)] assms(4) by (simp add: ip_rows_def)
  with * show ?thesis by auto
qed

lemma demo_render:
  "render demo_env demo_state
   = (demo_state\<lparr>update_ip_timer := 119, update_temp_timer := 59\<rparr>, [],
      Inr [(''VERSION     : '', (''1.6'', YELLOW)),
          (''DECLINATION : '', (''0.0'', BLUE)),
          (''TRAFFIC     : '', (''192.168.10.1'', BLUE)),
          (''IP          : '', (''192.168.1.10'', GREEN)),
          (''IP          : '', (''10.0.0.7'', GREEN)),
          (''AITHRE      : '', (''DISABLED'', BLUE)),
          (''HUD CPU     : '', (''45C'', GREEN)),
          (''OWNSHIP     : '', (''True/A1B2C3'', BLUE)),
          (''DISPLAY RES : '', (''800 x 480'', BLUE))])"
  by (simp add: demo_state_def render_def refresh_ip_def refresh_temp_def demo_info_lines)

theorem one_row_per_address_witness:
  "[''192.168.1.10'', ''10.0.0.7''] \<noteq> []
   \<and> CHR '' '' \<notin> set ''192.168.1.10'' \<and> CHR '' '' \<notin> set ''10.0.0.7''
   \<and> fst (ip_address (demo_state\<lparr>update_ip_timer := 119, update_temp_timer := 59\<rparr>))
       = py_join [''192.168.1.10'', ''10.0.0.7'']
   \<and> (\<exists>pre post.
         [(''VERSION     : '', (''1.6'', YELLOW)),
          (''DECLINATION : '', (''0.0'', BLUE)),
          (''TRAFFIC     : '', (''192.168.10.1'', BLUE)),
          (''IP          : '', (''192.168.1.10'', GREEN)),
          (''IP          : '', (''10.0.0.7'', GREEN)),
          (''AITHRE      : '', (''DISABLED'', BLUE)),
          (''HUD CPU     : '', (''45C'', GREEN)),
          (''OWNSHIP     : '', (''True/A1B2C3'', BLUE)),
          (''DISPLAY RES : '', (''800 x 480'', BLUE))]
         = pre @ [(''IP          : '', (''192.168.1.10'', GREEN)),
                  (''IP          : '', (''10.0.0.7'', GREEN))] @ post
         \<and> length pre = 3 \<and> length post = 4
         \<and> (\<forall>r \<in> set (pre @ post). fst r \<noteq> ''IP          : ''))"
proof -
  have h1: "[''192.168.1.10'', ''10.0.0.7''] \<noteq> []" by simp
  have h2: "\<forall>w \<in> set [''192.168.1.10'', ''10.0.0.7'']. CHR '' '' \<notin> set w" by simp
  have h4: "fst (ip_address (demo_state\<lparr>update_ip_timer := 119, update_temp_timer := 59\<rparr>))
       = py_join [''192.168.1.10'', ''10.0.0.7'']"
    by (simp add: demo_state_def)
  have c: "snd (ip_address (demo_state\<lparr>update_ip_timer := 119, update_temp_timer := 59\<rparr>)) = GREEN"
    by (simp add: demo_state_def)
  from one_row_per_address [OF h1 h2 demo_render h4]
  have "\<exists>pre post.
         [(''VERSION     : '', (''1.6'', YELLOW)),
          (''DECLINATION : '', (''0.0'', BLUE)),
          (''TRAFFIC     : '', (''192.168.10.1'', BLUE)),
          (''IP          : '', (''192.168.1.10'', GREEN)),
          (''IP          : '', (''10.0.0.7'', GREEN)),
          (''AITHRE      : '', (''DISABLED'', BLUE)),
          (''HUD CPU     : '', (''45C'', GREEN)),
          (''OWNSHIP     : '', (''True/A1B2C3'', BLUE)),
          (''DISPLAY RES : '', (''800 x 480'', BLUE))]
         = pre @ [(''IP          : '', (''192.168.1.10'', GREEN)),
                  (''IP          : '', (''10.0.0.7'', GREEN))] @ post
         \<and> length pre = 3 \<and> length post = 4
         \<and> (\<forall>r \<in> set (pre @ post). fst r \<noteq> ''IP          : '')"
    by (simp only: c list.map)
  moreover have "CHR '' '' \<notin> set ''192.168.1.10''" and "CHR '' '' \<notin> set ''10.0.0.7''"
    by simp_all
  ultimately show ?thesis using h1 h4 by blast
qed

subsection \<open>The Aithre element\<close>

lemma ppm_not_offline: "xs @ '' PPM'' \<noteq> ''OFFLINE''"
proof
  assume "xs @ '' PPM'' = ''OFFLINE''"
  then have "last (xs @ '' PPM'') = last ''OFFLINE''" by (simp only:)
  then show False by simp
qed

lemma aithre_render_cases:
  "numeric_co env \<Longrightarrow> has_been_connected (fst (Aithre_render env s))"
  "\<not> numeric_co env \<Longrightarrow> fst (Aithre_render env s) = s"
  by (auto simp: numeric_co_def Aithre_render_def
      split: option.splits sum.splits pyval.splits)

lemma aithre_render_monotone:
  "has_been_connected s \<Longrightarrow> has_been_connected (fst (Aithre_render env s))"
  by (auto simp: Aithre_render_def split: option.splits sum.splits)

lemma aithre_render_offline:
  assumes "snd (Aithre_render env s) = Inr (Some (''OFFLINE'', c, x, y))"
  shows "has_been_connected s \<and> c = RED"
  using assms ppm_not_offline
  by (auto simp: Aithre_render_def split: option.splits sum.splits if_splits)

lemma aithre_render_silent:
  assumes "\<not> has_been_connected s" and "sensor (aithre env) = Some sn"
    and "get_co_level sn = Inr v" and "v = PNone \<or> is_basestring v"
  shows "Aithre_render env s = (s, Inr None)"
  using assms by (auto simp: Aithre_render_def)

lemma run_aithre_Cons:
  "run_aithre (env # envs) s =
     (fst (run_aithre envs (fst (Aithre_render env s))),
      snd (Aithre_render env s) # snd (run_aithre envs (fst (Aithre_render env s))))"
  by (simp split: prod.splits)

lemma run_aithre_length: "length (snd (run_aithre envs s)) = length envs"
  by (induction envs arbitrary: s) (simp_all add: run_aithre_Cons del: run_aithre.simps(2))

lemma run_aithre_monotone:
  "has_been_connected s \<Longrightarrow> has_been_connected (fst (run_aithre envs s))"
  by (induction envs arbitrary: s)
     (simp_all add: run_aithre_Cons aithre_render_monotone del: run_aithre.simps(2))

lemma run_aithre_never_connected:
  "\<not> has_been_connected s \<Longrightarrow> \<forall>e \<in> set envs. \<not> numeric_co e \<Longrightarrow>
     fst (run_aithre envs s) = s"
  by (induction envs arbitrary: s)
     (simp_all add: run_aithre_Cons aithre_render_cases del: run_aithre.simps(2))

lemma run_aithre_offline:
  "i < length envs \<Longrightarrow> snd (run_aithre envs s) ! i = Inr (Some (''OFFLINE'', c, x, y)) \<Longrightarrow>
     c = RED \<and> (has_been_connected s \<or> (\<exists>j<i. numeric_co (envs ! j)))"
proof (induction envs arbitrary: s i)
  case Nil
  then show ?case by simp
next
  case (Cons env envs)
  show ?case
  proof (cases i)
    case 0
    with Cons.prems(2) have "snd (Aithre_render env s) = Inr (Some (''OFFLINE'', c, x, y))"
      by (simp add: run_aithre_Cons del: run_aithre.simps(2))
    from aithre_render_offline [OF this] show ?thesis by simp
  next
    case (Suc k)
    with Cons.prems have k: "k < length envs"
      "snd (run_aithre envs (fst (Aithre_render env s))) ! k = Inr (Some (''OFFLINE'', c, x, y))"
      by (simp_all add: run_aithre_Cons del: run_aithre.simps(2))
    from Cons.IH [OF k] have red: "c = RED"
      and ih: "has_been_connected (fst (Aithre_render env s)) \<or> (\<exists>j<k. numeric_co (envs ! j))"
      by simp_all
    have "has_been_connected s \<or> (\<exists>j<i. numeric_co ((env # envs) ! j))"
    proof (cases "has_been_connected (fst (Aithre_render env s))")
      case True
      show ?thesis
      proof (cases "numeric_co env")
        case True
        then have "numeric_co ((env # envs) ! 0)" by simp
        then show ?thesis using Suc by blast
      next
        case False
        with True show ?thesis by (simp add: aithre_render_cases)
      qed
    next
      case False
      with ih obtain j where "j < k" "numeric_co (envs ! j)" by blast
      then have "Suc j < i" "numeric_co ((env # envs) ! Suc j)" using Suc by simp_all
      then show ?thesis by blast
    qed
    with red show ?thesis by simp
  qed
qed

text \<open>
  Claim C10. \<^verbatim>\<open>__has_been_connected__\<close> starts false, stays true once true (over one
  call and over any run of calls), and turns true in a call exactly when that call
  obtains a numeric CO reading. In a run from the initial element, a call that draws
  \<^verbatim>\<open>OFFLINE\<close> draws it in red and comes after a call with a numeric reading; without
  such a call the flag stays false, and a call on an element whose flag is false, with
  a CO level that is \<^verbatim>\<open>None\<close> or a text, draws nothing and changes nothing.
\<close>

theorem has_been_connected_monotone:
  "\<not> has_been_connected (Aithre_init font_height fb)
   \<and> (has_been_connected s \<longrightarrow> has_been_connected (fst (Aithre_render env s)))
   \<and> (has_been_connected s \<longrightarrow> has_been_connected (fst (run_aithre envs s)))
   \<and> (\<not> has_been_connected s \<and> has_been_connected (fst (Aithre_render env s))
        \<longrightarrow> numeric_co env)
   \<and> (numeric_co env \<longrightarrow> has_been_connected (fst (Aithre_render env s)))
   \<and> (\<forall>i c x y. i < length envs
          \<and> snd (run_aithre envs (Aithre_init font_height fb)) ! i
              = Inr (Some (''OFFLINE'', c, x, y))
        \<longrightarrow> c = RED \<and> (\<exists>j<i. numeric_co (envs ! j)))
   \<and> ((\<forall>e \<in> set envs. \<not> numeric_co e) \<longrightarrow>
         \<not> has_been_connected (fst (run_aithre envs (Aithre_init font_height fb))))
   \<and> (\<forall>sn v. \<not> has_been_connected s \<and> sensor (aithre env) = Some sn
          \<and> get_co_level sn = Inr v \<and> (v = PNone \<or> is_basestring v)
        \<longrightarrow> Aithre_render env s = (s, Inr None))"
proof -
  have init: "\<not> has_been_connected (Aithre_init font_height fb)"
    by (simp add: Aithre_init_def Let_def)
  have set_only: "\<not> has_been_connected s \<and> has_been_connected (fst (Aithre_render env s))
        \<longrightarrow> numeric_co env"
    using aithre_render_cases(2) [of env s] by metis
  have offline: "\<forall>i c x y. i < length envs
          \<and> snd (run_aithre envs (Aithre_init font_height fb)) ! i
              = Inr (Some (''OFFLINE'', c, x, y))
        \<longrightarrow> c = RED \<and> (\<exists>j<i. numeric_co (envs ! j))"
    using run_aithre_offline [of _ envs "Aithre_init font_height fb"] init by blast
  have never: "(\<forall>e \<in> set envs. \<not> numeric_co e) \<longrightarrow>
         \<not> has_been_connected (fst (run_aithre envs (Aithre_init font_height fb)))"
    using run_aithre_never_connected [OF init, of envs] init by simp
  have silent: "\<forall>sn v. \<not> has_been_connected s \<and> sensor (aithre env) = Some sn
          \<and> get_co_level sn = Inr v \<and> (v = PNone \<or> is_basestring v)
        \<longrightarrow> Aithre_render env s = (s, Inr None)"
    using aithre_render_silent [of s env] by blast
  show ?thesis
    using init set_only offline never silent aithre_render_monotone [of s env]
      run_aithre_monotone [of s envs] aithre_render_cases(1) [of env s]
    by (intro conjI impI) blast+
qed

theorem has_been_connected_monotone_witness:
  "snd (run_aithre [co_env (Inr PNone), co_env (Inr (PInt 5)), co_env (Inr (PStr ''OFFLINE''))]
          (Aithre_init 20 (800, 480)))
     = [Inr None, Inr (Some (''5 PPM'', BLUE, 0, 110)), Inr (Some (''OFFLINE'', RED, 0, 110))]
   \<and> numeric_co (co_env (Inr (PInt 5)))
   \<and> (\<exists>j<2. numeric_co ([co_env (Inr PNone), co_env (Inr (PInt 5)),
                           co_env (Inr (PStr ''OFFLINE''))] ! j))"
proof -
  let ?envs = "[co_env (Inr PNone), co_env (Inr (PInt 5)), co_env (Inr (PStr ''OFFLINE''))]"
  have s5: "str_int 5 = ''5''" by (simp add: str_int_def str_nat.simps)
  have run: "snd (run_aithre ?envs (Aithre_init 20 (800, 480)))
     = [Inr None, Inr (Some (''5 PPM'', BLUE, 0, 110)), Inr (Some (''OFFLINE'', RED, 0, 110))]"
    by (simp add: Aithre_render_def Aithre_init_def co_env_def demo_aithre_def demo_config_def
        get_aithre_co_color_def s5)
  have n: "numeric_co (co_env (Inr (PInt 5)))"
    by (simp add: numeric_co_def co_env_def demo_aithre_def demo_config_def)
  have h: "(2::nat) < length ?envs
      \<and> snd (run_aithre ?envs (Aithre_init 20 (800, 480))) ! 2
          = Inr (Some (''OFFLINE'', RED, 0, 110))"
    by (simp only: run) simp
  note t = has_been_connected_monotone [of 20 "(800, 480)" _ _ ?envs, THEN conjunct2,
      THEN conjunct2, THEN conjunct2, THEN conjunct2, THEN conjunct2, THEN conjunct1,
      THEN spec, THEN spec, THEN spec, THEN spec, THEN mp, OF h]
  show ?thesis using run n t by blast
qed

end
